theory Spec2Isabelle
  imports Main "HOL-Library.Char_ord" "HOL-Library.List_Lexorder" "HOL-Library.Product_Lexorder"
begin

section \<open>Python values used by the routers\<close>

text \<open>
  Exceptions are values.  \<open>HTTPException\<close> carries the status code and the detail text
  the routers pass to it; the other constructors are the exceptions that the Python
  runtime, SQLAlchemy and botocore raise in the modelled paths.
\<close>

datatype error =
    HTTPException nat string
  | TypeError
  | AttributeError
  | ValueError
  | MultipleResultsFound
  | IntegrityError
  | OperationalError
  | MissingGreenlet
  | ClientError
  | BotoCoreError

subsection \<open>datetime\<close>

text \<open>
  A \<open>datetime.datetime\<close>: the date as its proleptic Gregorian ordinal (what
  \<open>toordinal()\<close> returns, a bijection with year/month/day), the time of day in its four
  fields, and \<open>tzinfo\<close> as the UTC offset in microseconds, \<open>None\<close> for a naive value.
  A \<open>timedelta\<close> is its total number of microseconds.
\<close>

record datetime =
  ordinal :: int
  hour :: nat
  minute :: nat
  second :: nat
  microsecond :: nat
  tzinfo :: "int option"

text \<open>The ranges the \<open>datetime\<close> constructor enforces on the time of day and the offset.\<close>

definition valid_datetime :: "datetime \<Rightarrow> bool" where
  "valid_datetime d \<longleftrightarrow>
     hour d < 24 \<and> minute d < 60 \<and> second d < 60 \<and> microsecond d < 1000000 \<and>
     (case tzinfo d of None \<Rightarrow> True
      | Some off \<Rightarrow> - 86400000000 < off \<and> off < 86400000000)"

definition us_per_day :: int where
  "us_per_day = 86400000000"

text \<open>Microseconds of the wall-clock reading since ordinal 0, ignoring the zone.\<close>

definition wall_us :: "datetime \<Rightarrow> int" where
  "wall_us d =
     ordinal d * us_per_day
       + (int (hour d) * 3600 + int (minute d) * 60 + int (second d)) * 1000000
       + int (microsecond d)"

text \<open>
  \<open>datetime.__sub__\<close>: the wall-clock difference when both offsets agree (also both
  naive), \<open>TypeError\<close> when exactly one operand is naive, otherwise the difference of
  the two instants.
\<close>

definition datetime_sub :: "datetime \<Rightarrow> datetime \<Rightarrow> error + int" where
  "datetime_sub a b =
     (let base = wall_us a - wall_us b in
      if tzinfo a = tzinfo b then Inr base
      else (case (tzinfo a, tzinfo b) of
              (Some myoff, Some otoff) \<Rightarrow> Inr (base + otoff - myoff)
            | _ \<Rightarrow> Inl TypeError))"

text \<open>\<open>timedelta.days\<close>: timedeltas are normalised with a floor division.\<close>

definition timedelta_days :: "int \<Rightarrow> int" where
  "timedelta_days td = td div us_per_day"

text \<open>
  \<open>datetime.__lt__\<close>: wall-clock comparison when the offsets agree,
  \<open>TypeError\<close> when a naive value meets an aware one, otherwise comparison of instants.
\<close>

definition utc_us :: "datetime \<Rightarrow> int" where
  "utc_us d = wall_us d - (case tzinfo d of None \<Rightarrow> 0 | Some off \<Rightarrow> off)"

definition datetime_lt :: "datetime \<Rightarrow> datetime \<Rightarrow> error + bool" where
  "datetime_lt a b =
     (if tzinfo a = tzinfo b then Inr (wall_us a < wall_us b)
      else if tzinfo a = None \<or> tzinfo b = None then Inl TypeError
      else Inr (utc_us a < utc_us b))"

text \<open>\<open>dt + timedelta(days=n)\<close>.\<close>

definition add_days :: "datetime \<Rightarrow> int \<Rightarrow> datetime" where
  "add_days d n = d\<lparr>ordinal := ordinal d + n\<rparr>"

text \<open>
  What a \<open>DateTime\<close> column keeps of a value on both configured backends (SQLite and
  MySQL): the wall-clock reading, without the zone.  A value read back has no zone.
\<close>

definition column_value :: "datetime \<Rightarrow> datetime" where
  "column_value d = d\<lparr>tzinfo := None\<rparr>"

subsection \<open>Formatting an int in an f-string\<close>

definition digit_char :: "nat \<Rightarrow> char" where
  "digit_char n = ''0123456789'' ! n"

fun str_nat :: "nat \<Rightarrow> string" where
  "str_nat n = (if n < 10 then [digit_char n] else str_nat (n div 10) @ [digit_char (n mod 10)])"

declare str_nat.simps [simp del]

definition str_int :: "int \<Rightarrow> string" where
  "str_int i = (if i < 0 then CHR ''-'' # str_nat (nat (- i)) else str_nat (nat i))"

section \<open>Task tracker: the D-day label\<close>

text \<open>
  \<open>calculate_dday\<close> of \<open>app/routers/tasks.py\<close>.  \<open>now\<close> is the value that
  \<open>datetime.now(timezone.utc)\<close> returned, passed in.
\<close>

definition replace_midnight :: "datetime \<Rightarrow> datetime" where
  "replace_midnight d = d\<lparr>hour := 0, minute := 0, second := 0, microsecond := 0\<rparr>"

definition calculate_dday :: "datetime \<Rightarrow> datetime option \<Rightarrow> error + (string option \<times> bool)" where
  "calculate_dday now due_date =
     (case due_date of
        None \<Rightarrow> Inr (None, False)
      | Some dd \<Rightarrow>
          (let due = (if tzinfo dd = None then dd\<lparr>tzinfo := Some 0\<rparr> else dd);
               now_date = replace_midnight now;
               due_date_only = replace_midnight due
           in case datetime_sub due_date_only now_date of
                Inl e \<Rightarrow> Inl e
              | Inr td \<Rightarrow>
                  (let diff = timedelta_days td in
                   if diff = 0 then Inr (Some ''D-Day'', False)
                   else if diff > 0 then Inr (Some (''D-'' @ str_int diff), False)
                   else Inr (Some (''D+'' @ str_int (abs diff)), True))))"

text \<open>
  The D-day algorithm in the words of the specification: both timestamps are truncated
  to their UTC calendar day (a timestamp without a zone is read as UTC) and the label is
  chosen from the difference of the two days.
\<close>

definition utc_day :: "datetime \<Rightarrow> int" where
  "utc_day d = utc_us d div us_per_day"

definition spec_dday :: "datetime \<Rightarrow> datetime option \<Rightarrow> string option \<times> bool" where
  "spec_dday now due_date =
     (case due_date of
        None \<Rightarrow> (None, False)
      | Some dd \<Rightarrow>
          (let diff = utc_day dd - utc_day now in
           if diff = 0 then (Some ''D-Day'', False)
           else if diff > 0 then (Some (''D-'' @ str_int diff), False)
           else (Some (''D+'' @ str_int (abs diff)), True)))"

section \<open>Domain entities\<close>

text \<open>
  The enums of \<open>app/models\<close>.  \<open>ControlStatus\<close> and \<open>TaskStatus\<close> both have a member
  \<open>IN_PROGRESS\<close>; it is always written with its class, as in the source.
\<close>

datatype ProfileType = STARTUP | SME | MIDSIZE | ENTERPRISE

datatype UserRole = ADMIN | MANAGER | MEMBER

datatype ControlStatus = NOT_STARTED | IN_PROGRESS | REVIEW_PENDING | COMPLETED | NOT_APPLICABLE

datatype TaskStatus = TODO | IN_PROGRESS | REVIEW | DONE

datatype TaskPriority = LOW | MEDIUM | HIGH | URGENT

text \<open>The \<open>.value\<close> of each member.\<close>

fun UserRole_value :: "UserRole \<Rightarrow> string" where
  "UserRole_value ADMIN = ''admin''"
| "UserRole_value MANAGER = ''manager''"
| "UserRole_value MEMBER = ''member''"

fun ControlStatus_value :: "ControlStatus \<Rightarrow> string" where
  "ControlStatus_value NOT_STARTED = ''not_started''"
| "ControlStatus_value ControlStatus.IN_PROGRESS = ''in_progress''"
| "ControlStatus_value REVIEW_PENDING = ''review_pending''"
| "ControlStatus_value COMPLETED = ''completed''"
| "ControlStatus_value NOT_APPLICABLE = ''not_applicable''"

fun TaskStatus_value :: "TaskStatus \<Rightarrow> string" where
  "TaskStatus_value TODO = ''todo''"
| "TaskStatus_value TaskStatus.IN_PROGRESS = ''in_progress''"
| "TaskStatus_value REVIEW = ''review''"
| "TaskStatus_value DONE = ''done''"

fun TaskPriority_value :: "TaskPriority \<Rightarrow> string" where
  "TaskPriority_value LOW = ''low''"
| "TaskPriority_value MEDIUM = ''medium''"
| "TaskPriority_value HIGH = ''high''"
| "TaskPriority_value URGENT = ''urgent''"

text \<open>
  The mapped classes, one record per table row.  Several classes have columns of the
  same name (\<open>id\<close>, \<open>status\<close>, \<open>organization_id\<close>, ...), so each field carries a prefix
  for its class: \<open>o_\<close> Organization, \<open>u_\<close> User, \<open>c_\<close> Control, \<open>oc_\<close>
  OrganizationControl, \<open>t_\<close> Task, \<open>d_\<close> Document.  A nullable column is an option.
  \<open>oc_control\<close> is the \<open>control\<close> relationship every controls query loads with
  \<open>selectinload\<close>; the other relationships are not read by the modelled handlers.
\<close>

record Organization =
  o_id :: string
  o_name :: string
  o_profile_type :: ProfileType
  o_created_at :: datetime
  o_updated_at :: datetime

record User =
  u_id :: string
  u_email :: string
  u_name :: "string option"
  u_password_hash :: string
  u_role :: UserRole
  u_organization_id :: string
  u_created_at :: datetime
  u_updated_at :: datetime

record Control =
  c_id :: string
  c_control_id :: string
  c_name_en :: string
  c_name_ko :: string
  c_description_en :: "string option"
  c_description_ko :: "string option"
  c_category :: string
  c_category_name_en :: string
  c_category_name_ko :: string

record OrganizationControl =
  oc_id :: string
  oc_organization_id :: string
  oc_control_id :: string
  oc_status :: ControlStatus
  oc_is_applicable :: bool
  oc_notes :: "string option"
  oc_created_at :: datetime
  oc_updated_at :: datetime
  oc_control :: Control

record Task =
  t_id :: string
  t_title :: string
  t_description :: "string option"
  t_status :: TaskStatus
  t_priority :: TaskPriority
  t_due_date :: "datetime option"
  t_recurring_rule :: "string option"
  t_organization_id :: string
  t_control_id :: "string option"
  t_assignee_id :: "string option"
  t_created_at :: datetime
  t_updated_at :: datetime

record Document =
  d_id :: string
  d_name :: string
  d_description :: "string option"
  d_file_key :: string
  d_file_size :: int
  d_mime_type :: string
  d_version :: int
  d_expires_at :: "datetime option"
  d_organization_id :: string
  d_control_id :: "string option"
  d_task_id :: "string option"
  d_uploaded_by_id :: string
  d_created_at :: datetime
  d_updated_at :: datetime

text \<open>The relational store: each table is the list of its rows.\<close>

record database =
  organizations :: "Organization list"
  users :: "User list"
  organization_controls :: "OrganizationControl list"
  tasks :: "Task list"
  documents :: "Document list"

text \<open>
  The constraints the models declare and both configured backends enforce: primary keys
  and the unique e-mail.  (\<open>nullable=False\<close> is enforced where a handler writes a row.)
  The store is the one of the default backend in what it does not enforce: SQLite checks
  a foreign key only under \<open>PRAGMA foreign_keys\<close>, which the code does not set, and it
  does not check the declared length of a \<open>String\<close> column, so a row may hold any
  reference and any string.
\<close>

definition primary_keys :: "database \<Rightarrow> bool" where
  "primary_keys db \<longleftrightarrow>
     distinct (map o_id (organizations db)) \<and> distinct (map u_id (users db)) \<and>
     distinct (map oc_id (organization_controls db)) \<and> distinct (map t_id (tasks db)) \<and>
     distinct (map d_id (documents db))"

definition unique_emails :: "database \<Rightarrow> bool" where
  "unique_emails db \<longleftrightarrow> distinct (map u_email (users db))"

section \<open>Request scope\<close>

text \<open>
  The authenticated principal that \<open>get_current_user\<close> yields: the dict with the keys
  \<open>user_id\<close>, \<open>organization_id\<close> and \<open>role\<close>.
\<close>

record principal =
  cu_user_id :: string
  cu_organization_id :: string
  cu_role :: string

text \<open>
  A handler runs on the session's view of the store and returns that view together
  with its result or the exception it raised.  \<open>get_db\<close> of \<open>app/db/database.py\<close> is
  the scope around it: commit when the handler returned, rollback when it raised.
\<close>

type_synonym 'a handler = "database \<Rightarrow> database \<times> (error + 'a)"

definition get_db :: "'a handler \<Rightarrow> 'a handler" where
  "get_db handler committed =
     (case handler committed of
        (session, Inr response) \<Rightarrow> (session, Inr response)
      | (session, Inl e) \<Rightarrow> (committed, Inl e))"

text \<open>
  A mapped object as a handler returns it: the values of its attributes, and whether
  the flush has expired \<open>updated_at\<close>.  An \<open>UPDATE\<close> lets the database set that
  column (\<open>onupdate=func.now()\<close> of \<open>TimestampMixin\<close>), so the ORM expires the attribute
  and would reload it at the next read; under the async session that read raises
  \<open>MissingGreenlet\<close>.
\<close>

record 'row orm_object =
  attrs :: 'row
  updated_at_expired :: bool

text \<open>
  \<open>response_model=...\<close> of an endpoint: the value the handler returned is read into the
  response schema, inside the scope of \<open>get_db\<close>.  \<open>reads_updated_at\<close> is a schema
  that has the field \<open>updated_at\<close> (\<open>TaskResponse\<close>, \<open>OrganizationControlResponse\<close>);
  \<open>without_updated_at\<close> is one that has not (\<open>DocumentResponse\<close>), and the model hands
  the attribute values on as they are.
\<close>

definition reads_updated_at :: "'row orm_object \<Rightarrow> error + 'row" where
  "reads_updated_at obj = (if updated_at_expired obj then Inl MissingGreenlet else Inr (attrs obj))"


definition response_model :: "('a \<Rightarrow> error + 'b) \<Rightarrow> 'a handler \<Rightarrow> 'b handler" where
  "response_model schema handler db =
     (case handler db of
        (session, Inl e) \<Rightarrow> (session, Inl e)
      | (session, Inr result) \<Rightarrow> (session, schema result))"

text \<open>\<open>Result.scalar_one_or_none()\<close>.\<close>

definition scalar_one_or_none :: "'a list \<Rightarrow> error + 'a option" where
  "scalar_one_or_none rows =
     (case rows of
        [] \<Rightarrow> Inr None
      | [x] \<Rightarrow> Inr (Some x)
      | _ \<Rightarrow> Inl MultipleResultsFound)"

text \<open>
  A field of a partial-update request after \<open>model_dump(exclude_unset=True)\<close>:
  \<open>None\<close> when the client left it out, \<open>Some None\<close> when it sent \<open>null\<close>,
  \<open>Some (Some v)\<close> when it sent \<open>v\<close>.  \<open>set_nullable\<close> is \<open>setattr\<close> on a nullable
  column; \<open>set_required\<close> is \<open>setattr\<close> on a \<open>nullable=False\<close> column, where
  \<open>None\<close> as result stands for the attribute left \<open>None\<close>, which the flush rejects.
\<close>

definition set_nullable :: "'a option option \<Rightarrow> 'a option \<Rightarrow> 'a option" where
  "set_nullable field old = (case field of None \<Rightarrow> old | Some v \<Rightarrow> v)"

definition set_required :: "'a option option \<Rightarrow> 'a \<Rightarrow> 'a option" where
  "set_required field old = (case field of None \<Rightarrow> Some old | Some v \<Rightarrow> v)"

section \<open>Task tracker\<close>

text \<open>
  A \<open>dict\<close> with \<open>str\<close> keys, in insertion order: \<open>d.get(k, default)\<close> and
  \<open>d[k] = v\<close>, which overwrites in place or appends a new key.
\<close>

type_synonym 'v dict = "(string \<times> 'v) list"

definition dict_get :: "'v dict \<Rightarrow> string \<Rightarrow> 'v \<Rightarrow> 'v" where
  "dict_get d k dflt = (case map_of d k of None \<Rightarrow> dflt | Some v \<Rightarrow> v)"

fun dict_set :: "'v dict \<Rightarrow> string \<Rightarrow> 'v \<Rightarrow> 'v dict" where
  "dict_set [] k v = [(k, v)]"
| "dict_set ((k', v') # d) k v = (if k' = k then (k, v) # d else (k', v') # dict_set d k v)"

definition dict_values :: "'v dict \<Rightarrow> 'v list" where
  "dict_values d = map snd d"

text \<open>
  Comparisons the database evaluates in a \<open>WHERE\<close> clause.  The store compares
  timestamps as instants, reading a value without a zone as UTC; a comparison with
  \<open>NULL\<close> is not true, so the row is left out.
\<close>

definition sql_lt :: "datetime option \<Rightarrow> datetime \<Rightarrow> bool" where
  "sql_lt col v = (case col of None \<Rightarrow> False | Some c \<Rightarrow> utc_us c < utc_us v)"

definition sql_le :: "datetime option \<Rightarrow> datetime \<Rightarrow> bool" where
  "sql_le col v = (case col of None \<Rightarrow> False | Some c \<Rightarrow> utc_us c \<le> utc_us v)"

definition sql_eq :: "'a option \<Rightarrow> 'a \<Rightarrow> bool" where
  "sql_eq col v = (case col of None \<Rightarrow> False | Some c \<Rightarrow> c = v)"

text \<open>
  \<open>col.ilike(f"%{search}%")\<close>.  The matcher itself belongs to the database engine and
  is a parameter \<open>ilike\<close> (value, pattern) of the handlers that search.
\<close>

definition ilike_contains :: "(string \<Rightarrow> string \<Rightarrow> bool) \<Rightarrow> string option \<Rightarrow> string \<Rightarrow> bool" where
  "ilike_contains ilike col search =
     (case col of None \<Rightarrow> False | Some c \<Rightarrow> ilike c (''%'' @ search @ ''%''))"

text \<open>
  \<open>if param: query = query.where(cond(param))\<close> for an \<open>Optional[str]\<close> query
  parameter: \<open>None\<close> and \<open>""\<close> are false and add no condition.
\<close>

definition when_given :: "string option \<Rightarrow> (string \<Rightarrow> bool) \<Rightarrow> bool" where
  "when_given param cond = (case param of None \<Rightarrow> True | Some s \<Rightarrow> if s = [] then True else cond s)"

text \<open>\<open>ORDER BY due_date ASC NULLS LAST\<close>.\<close>

definition due_date_key :: "Task \<Rightarrow> nat \<times> int" where
  "due_date_key t = (case t_due_date t of None \<Rightarrow> (1, 0) | Some d \<Rightarrow> (0, utc_us d))"

record TaskListResponse =
  tl_tasks :: "Task list"
  tl_total :: int
  tl_by_status :: "int dict"
  tl_by_priority :: "int dict"
  tl_overdue_count :: int

text \<open>The query \<open>list_tasks\<close> builds and executes.\<close>

definition list_tasks_query ::
  "(string \<Rightarrow> string \<Rightarrow> bool) \<Rightarrow> TaskStatus option \<Rightarrow> TaskPriority option \<Rightarrow> string option \<Rightarrow>
   string option \<Rightarrow> bool \<Rightarrow> string option \<Rightarrow> string \<Rightarrow> datetime \<Rightarrow> database \<Rightarrow> Task list" where
  "list_tasks_query ilike status priority control_id assignee_id overdue_only search org_id now db =
     sort_key due_date_key
       (filter (\<lambda>t.
          t_organization_id t = org_id \<and>
          (case status of None \<Rightarrow> True | Some s \<Rightarrow> t_status t = s) \<and>
          (case priority of None \<Rightarrow> True | Some p \<Rightarrow> t_priority t = p) \<and>
          when_given control_id (sql_eq (t_control_id t)) \<and>
          when_given assignee_id (sql_eq (t_assignee_id t)) \<and>
          (if overdue_only then sql_lt (t_due_date t) now \<and> t_status t \<noteq> DONE else True) \<and>
          when_given search (\<lambda>s.
             ilike_contains ilike (Some (t_title t)) s \<or>
             ilike_contains ilike (t_description t) s))
        (tasks db))"

text \<open>
  \<open>task.due_date and task.due_date < now and task.status != TaskStatus.DONE\<close>, with
  Python's short-circuit evaluation: the comparison runs only for a due date that is
  not \<open>None\<close>, and it is \<open>datetime.__lt__\<close>.
\<close>

definition is_overdue :: "datetime \<Rightarrow> Task \<Rightarrow> error + bool" where
  "is_overdue now task =
     (case t_due_date task of
        None \<Rightarrow> Inr False
      | Some due \<Rightarrow>
          (case datetime_lt due now of
             Inl e \<Rightarrow> Inl e
           | Inr lt \<Rightarrow> Inr (lt \<and> t_status task \<noteq> DONE)))"

text \<open>The loop \<open>for task in tasks\<close> that fills the three aggregates.\<close>

fun task_stats :: "datetime \<Rightarrow> Task list \<Rightarrow> int dict \<times> int dict \<times> int \<Rightarrow> error + (int dict \<times> int dict \<times> int)" where
  "task_stats now [] acc = Inr acc"
| "task_stats now (task # rest) (by_status, by_priority, overdue_count) =
     (let status_key = TaskStatus_value (t_status task);
          by_status' = dict_set by_status status_key (dict_get by_status status_key 0 + 1);
          priority_key = TaskPriority_value (t_priority task);
          by_priority' = dict_set by_priority priority_key (dict_get by_priority priority_key 0 + 1)
      in case is_overdue now task of
           Inl e \<Rightarrow> Inl e
         | Inr overdue \<Rightarrow>
             task_stats now rest
               (by_status', by_priority', if overdue then overdue_count + 1 else overdue_count))"

definition list_tasks ::
  "(string \<Rightarrow> string \<Rightarrow> bool) \<Rightarrow> TaskStatus option \<Rightarrow> TaskPriority option \<Rightarrow> string option \<Rightarrow>
   string option \<Rightarrow> bool \<Rightarrow> string option \<Rightarrow> principal \<Rightarrow> datetime \<Rightarrow> TaskListResponse handler" where
  "list_tasks ilike status priority control_id assignee_id overdue_only search current_user now db =
     (let org_id = cu_organization_id current_user;
          tasks = list_tasks_query ilike status priority control_id assignee_id overdue_only
                    search org_id now db
      in case task_stats now tasks ([], [], 0) of
           Inl e \<Rightarrow> (db, Inl e)
         | Inr (by_status, by_priority, overdue_count) \<Rightarrow>
             (db, Inr \<lparr>tl_tasks = tasks, tl_total = int (length tasks),
                       tl_by_status = by_status, tl_by_priority = by_priority,
                       tl_overdue_count = overdue_count\<rparr>))"

text \<open>
  The \<open>SELECT\<close> that \<open>get_task\<close>, \<open>update_task\<close> and \<open>delete_task\<close> each run, with
  \<open>scalar_one_or_none()\<close>.
\<close>

definition select_task :: "string \<Rightarrow> principal \<Rightarrow> database \<Rightarrow> error + Task option" where
  "select_task task_id current_user db =
     scalar_one_or_none
       (filter (\<lambda>t. t_id t = task_id \<and> t_organization_id t = cu_organization_id current_user)
          (tasks db))"

definition get_task :: "string \<Rightarrow> principal \<Rightarrow> Task handler" where
  "get_task task_id current_user db =
     (case select_task task_id current_user db of
        Inl e \<Rightarrow> (db, Inl e)
      | Inr None \<Rightarrow> (db, Inl (HTTPException 404 ''Task not found''))
      | Inr (Some task) \<Rightarrow> (db, Inr task))"

record TaskUpdate =
  tu_title :: "string option option"
  tu_description :: "string option option"
  tu_status :: "TaskStatus option option"
  tu_priority :: "TaskPriority option option"
  tu_due_date :: "datetime option option"
  tu_control_id :: "string option option"
  tu_assignee_id :: "string option option"
  tu_recurring_rule :: "string option option"

text \<open>
  \<open>update_task\<close>: the \<open>setattr\<close> loop, then \<open>flush\<close>.  The flush raises
  \<open>IntegrityError\<close> when a \<open>nullable=False\<close> column was set to \<open>None\<close>.  When no
  attribute changed it writes nothing.  Otherwise it writes the row, the due date as the
  column keeps it and \<open>updated_at\<close> from the database's clock \<open>db_now\<close>, and expires
  \<open>updated_at\<close> on the object, which the handler returns without reloading it.
  \<open>patch_task\<close> is the endpoint: the handler under \<open>response_model=TaskResponse\<close> and
  \<open>get_db\<close>.
\<close>

definition update_task ::
  "string \<Rightarrow> TaskUpdate \<Rightarrow> principal \<Rightarrow> datetime \<Rightarrow> Task orm_object handler" where
  "update_task task_id request current_user db_now db =
     (case select_task task_id current_user db of
        Inl e \<Rightarrow> (db, Inl e)
      | Inr None \<Rightarrow> (db, Inl (HTTPException 404 ''Task not found''))
      | Inr (Some task) \<Rightarrow>
          (case (set_required (tu_title request) (t_title task),
                 set_required (tu_status request) (t_status task),
                 set_required (tu_priority request) (t_priority task)) of
             (Some title, Some status, Some priority) \<Rightarrow>
               (let task' = task
                      \<lparr>t_title := title,
                       t_description := set_nullable (tu_description request) (t_description task),
                       t_status := status,
                       t_priority := priority,
                       t_due_date := set_nullable (tu_due_date request) (t_due_date task),
                       t_control_id := set_nullable (tu_control_id request) (t_control_id task),
                       t_assignee_id := set_nullable (tu_assignee_id request) (t_assignee_id task),
                       t_recurring_rule :=
                         set_nullable (tu_recurring_rule request) (t_recurring_rule task)\<rparr>
                in if task' = task
                   then (db, Inr \<lparr>attrs = task, updated_at_expired = False\<rparr>)
                   else (db\<lparr>tasks :=
                              map (\<lambda>t. if t_id t = t_id task
                                        then task'\<lparr>t_due_date := map_option column_value (t_due_date task'),
                                                   t_updated_at := column_value db_now\<rparr>
                                        else t) (tasks db)\<rparr>,
                         Inr \<lparr>attrs = task', updated_at_expired = True\<rparr>))
           | _ \<Rightarrow> (db, Inl IntegrityError)))"

definition patch_task :: "string \<Rightarrow> TaskUpdate \<Rightarrow> principal \<Rightarrow> datetime \<Rightarrow> Task handler" where
  "patch_task task_id request current_user db_now =
     get_db (response_model reads_updated_at (update_task task_id request current_user db_now))"

text \<open>
  \<open>delete_task\<close>.  \<open>Task.documents\<close> is a one-to-many relationship without a delete
  cascade, so the unit of work sets \<open>task_id\<close> to \<open>NULL\<close> on the documents of the
  deleted task, an \<open>UPDATE\<close> that also refreshes their \<open>updated_at\<close>.
\<close>

definition delete_task :: "string \<Rightarrow> principal \<Rightarrow> datetime \<Rightarrow> string handler" where
  "delete_task task_id current_user db_now db =
     (case select_task task_id current_user db of
        Inl e \<Rightarrow> (db, Inl e)
      | Inr None \<Rightarrow> (db, Inl (HTTPException 404 ''Task not found''))
      | Inr (Some task) \<Rightarrow>
          (db\<lparr>tasks := filter (\<lambda>t. t_id t \<noteq> t_id task) (tasks db),
               documents :=
                 map (\<lambda>d. if d_task_id d = Some (t_id task)
                           then d\<lparr>d_task_id := None, d_updated_at := column_value db_now\<rparr>
                           else d) (documents db)\<rparr>,
           Inr ''Task deleted successfully''))"

section \<open>Control catalog and adoption tracker\<close>

record ControlListResponse =
  cl_controls :: "OrganizationControl list"
  cl_total :: int
  cl_by_status :: "int dict"
  cl_by_category :: "int dict"

text \<open>
  The query \<open>list_controls\<close> builds.  \<open>category\<close> and \<open>search\<close> each join
  \<open>Control\<close>; each organization-control has one catalog control, so one join is the
  condition on \<open>oc_control\<close>.  With both parameters given the query joins
  \<open>Control\<close> twice under the same name, which the database refuses
  (\<open>OperationalError\<close>): \<open>list_controls\<close> below.  \<open>truthy\<close> is the truth value of an
  \<open>Optional[str]\<close>.
\<close>

definition truthy :: "string option \<Rightarrow> bool" where
  "truthy param = (case param of None \<Rightarrow> False | Some s \<Rightarrow> s \<noteq> [])"

definition list_controls_query ::
  "(string \<Rightarrow> string \<Rightarrow> bool) \<Rightarrow> ControlStatus option \<Rightarrow> string option \<Rightarrow> string option \<Rightarrow>
   string \<Rightarrow> database \<Rightarrow> OrganizationControl list" where
  "list_controls_query ilike status category search org_id db =
     filter (\<lambda>oc.
        oc_organization_id oc = org_id \<and>
        (case status of None \<Rightarrow> True | Some s \<Rightarrow> oc_status oc = s) \<and>
        when_given category (\<lambda>c. c_category (oc_control oc) = c) \<and>
        when_given search (\<lambda>s.
           ilike_contains ilike (Some (c_name_ko (oc_control oc))) s \<or>
           ilike_contains ilike (Some (c_name_en (oc_control oc))) s \<or>
           ilike_contains ilike (Some (c_control_id (oc_control oc))) s))
      (organization_controls db)"

text \<open>The two counting loops of \<open>list_controls\<close>.\<close>

fun count_by :: "('a \<Rightarrow> string) \<Rightarrow> 'a list \<Rightarrow> int dict \<Rightarrow> int dict" where
  "count_by key [] d = d"
| "count_by key (x # xs) d = count_by key xs (dict_set d (key x) (dict_get d (key x) 0 + 1))"

definition list_controls ::
  "(string \<Rightarrow> string \<Rightarrow> bool) \<Rightarrow> ControlStatus option \<Rightarrow> string option \<Rightarrow> string option \<Rightarrow>
   principal \<Rightarrow> ControlListResponse handler" where
  "list_controls ilike status category search current_user db =
     (if truthy category \<and> truthy search then (db, Inl OperationalError)
      else
        (let org_id = cu_organization_id current_user;
             controls = list_controls_query ilike status category search org_id db;
             by_status = count_by (\<lambda>ctrl. ControlStatus_value (oc_status ctrl)) controls [];
             by_category = count_by (\<lambda>ctrl. c_category (oc_control ctrl)) controls []
         in (db, Inr \<lparr>cl_controls = controls, cl_total = int (length controls),
                       cl_by_status = by_status, cl_by_category = by_category\<rparr>)))"

text \<open>
  \<open>list_controls_by_category\<close>.  \<open>category_data\<close> is the inner dict the loop keeps per
  category; \<open>group_by_category\<close> is the loop; \<open>sorted(..., key=...)\<close> is a stable sort
  on the category strings, compared as Python compares \<open>str\<close>.
\<close>

record category_data =
  cd_category :: string
  cd_category_name_en :: string
  cd_category_name_ko :: string
  cd_controls :: "OrganizationControl list"
  cd_completed :: int

record ControlCategoryResponse =
  cr_category :: string
  cr_category_name_en :: string
  cr_category_name_ko :: string
  cr_controls :: "OrganizationControl list"
  cr_total :: int
  cr_completed :: int

fun group_by_category :: "OrganizationControl list \<Rightarrow> category_data dict \<Rightarrow> category_data dict" where
  "group_by_category [] categories = categories"
| "group_by_category (ctrl # rest) categories =
     (let cat = c_category (oc_control ctrl);
          data = (case map_of categories cat of
                    None \<Rightarrow> \<lparr>cd_category = cat,
                              cd_category_name_en = c_category_name_en (oc_control ctrl),
                              cd_category_name_ko = c_category_name_ko (oc_control ctrl),
                              cd_controls = [], cd_completed = 0\<rparr>
                  | Some data \<Rightarrow> data);
          data' = data\<lparr>cd_controls := cd_controls data @ [ctrl],
                        cd_completed := (if oc_status ctrl = COMPLETED then cd_completed data + 1
                                         else cd_completed data)\<rparr>
      in group_by_category rest (dict_set categories cat data'))"

definition list_controls_by_category :: "principal \<Rightarrow> ControlCategoryResponse list handler" where
  "list_controls_by_category current_user db =
     (let org_id = cu_organization_id current_user;
          controls = filter (\<lambda>oc. oc_organization_id oc = org_id) (organization_controls db);
          categories = group_by_category controls []
      in (db, Inr (map (\<lambda>data. \<lparr>cr_category = cd_category data,
                                   cr_category_name_en = cd_category_name_en data,
                                   cr_category_name_ko = cd_category_name_ko data,
                                   cr_controls = cd_controls data,
                                   cr_total = int (length (cd_controls data)),
                                   cr_completed = cd_completed data\<rparr>)
                     (sort_key cd_category (dict_values categories)))))"

definition select_control :: "string \<Rightarrow> principal \<Rightarrow> database \<Rightarrow> error + OrganizationControl option" where
  "select_control control_id current_user db =
     scalar_one_or_none
       (filter (\<lambda>oc. oc_id oc = control_id \<and>
                      oc_organization_id oc = cu_organization_id current_user)
          (organization_controls db))"

definition get_control :: "string \<Rightarrow> principal \<Rightarrow> OrganizationControl handler" where
  "get_control control_id current_user db =
     (case select_control control_id current_user db of
        Inl e \<Rightarrow> (db, Inl e)
      | Inr None \<Rightarrow> (db, Inl (HTTPException 404 ''Control not found''))
      | Inr (Some control) \<Rightarrow> (db, Inr control))"

record OrganizationControlUpdate =
  ocu_status :: "ControlStatus option option"
  ocu_is_applicable :: "bool option option"
  ocu_notes :: "string option option"

text \<open>
  \<open>update_control\<close> and its endpoint, as \<open>update_task\<close>:
  \<open>response_model=OrganizationControlResponse\<close> has \<open>updated_at\<close>.
\<close>

definition update_control ::
  "string \<Rightarrow> OrganizationControlUpdate \<Rightarrow> principal \<Rightarrow> datetime \<Rightarrow>
   OrganizationControl orm_object handler" where
  "update_control control_id request current_user db_now db =
     (case select_control control_id current_user db of
        Inl e \<Rightarrow> (db, Inl e)
      | Inr None \<Rightarrow> (db, Inl (HTTPException 404 ''Control not found''))
      | Inr (Some control) \<Rightarrow>
          (case (set_required (ocu_status request) (oc_status control),
                 set_required (ocu_is_applicable request) (oc_is_applicable control)) of
             (Some status, Some is_applicable) \<Rightarrow>
               (let control' = control
                      \<lparr>oc_status := status,
                       oc_is_applicable := is_applicable,
                       oc_notes := set_nullable (ocu_notes request) (oc_notes control)\<rparr>
                in if control' = control
                   then (db, Inr \<lparr>attrs = control, updated_at_expired = False\<rparr>)
                   else (db\<lparr>organization_controls :=
                              map (\<lambda>oc. if oc_id oc = oc_id control
                                         then control'\<lparr>oc_updated_at := column_value db_now\<rparr>
                                         else oc) (organization_controls db)\<rparr>,
                         Inr \<lparr>attrs = control', updated_at_expired = True\<rparr>))
           | _ \<Rightarrow> (db, Inl IntegrityError)))"

definition patch_control ::
  "string \<Rightarrow> OrganizationControlUpdate \<Rightarrow> principal \<Rightarrow> datetime \<Rightarrow> OrganizationControl handler" where
  "patch_control control_id request current_user db_now =
     get_db (response_model reads_updated_at
       (update_control control_id request current_user db_now))"

section \<open>Document registry\<close>

text \<open>
  The blob store is the set of keys in the bucket.  \<open>fault\<close> tells, for a key, which
  exception the S3 client's \<open>delete_object\<close> raises, if any; \<open>delete_file\<close> of
  \<open>StorageService\<close> catches \<open>ClientError\<close> only, logs it and returns \<open>False\<close>.
\<close>

definition delete_object :: "(string \<Rightarrow> error option) \<Rightarrow> string \<Rightarrow> string set \<Rightarrow> error + string set" where
  "delete_object fault file_key bucket =
     (case fault file_key of None \<Rightarrow> Inr (bucket - {file_key}) | Some e \<Rightarrow> Inl e)"

definition delete_file :: "(string \<Rightarrow> error option) \<Rightarrow> string \<Rightarrow> string set \<Rightarrow> string set \<times> (error + bool)" where
  "delete_file fault file_key bucket =
     (case delete_object fault file_key bucket of
        Inr bucket' \<Rightarrow> (bucket', Inr True)
      | Inl ClientError \<Rightarrow> (bucket, Inr False)
      | Inl e \<Rightarrow> (bucket, Inl e))"

definition select_document :: "string \<Rightarrow> principal \<Rightarrow> database \<Rightarrow> error + Document option" where
  "select_document document_id current_user db =
     scalar_one_or_none
       (filter (\<lambda>d. d_id d = document_id \<and>
                     d_organization_id d = cu_organization_id current_user)
          (documents db))"

definition get_document :: "string \<Rightarrow> principal \<Rightarrow> Document handler" where
  "get_document document_id current_user db =
     (case select_document document_id current_user db of
        Inl e \<Rightarrow> (db, Inl e)
      | Inr None \<Rightarrow> (db, Inl (HTTPException 404 ''Document not found''))
      | Inr (Some document) \<Rightarrow> (db, Inr document))"

record DocumentUpdate =
  du_name :: "string option option"
  du_description :: "string option option"
  du_expires_at :: "datetime option option"
  du_control_id :: "string option option"
  du_task_id :: "string option option"

text \<open>
  \<open>update_document\<close> and its endpoint.  The flush is that of \<open>update_task\<close>, with
  \<open>expires_at\<close> written as the column keeps it; \<open>response_model=DocumentResponse\<close> has
  no \<open>updated_at\<close>, so the response does not read the expired attribute.
\<close>

definition update_document ::
  "string \<Rightarrow> DocumentUpdate \<Rightarrow> principal \<Rightarrow> datetime \<Rightarrow> Document orm_object handler" where
  "update_document document_id request current_user db_now db =
     (case select_document document_id current_user db of
        Inl e \<Rightarrow> (db, Inl e)
      | Inr None \<Rightarrow> (db, Inl (HTTPException 404 ''Document not found''))
      | Inr (Some document) \<Rightarrow>
          (case set_required (du_name request) (d_name document) of
             Some name \<Rightarrow>
               (let document' = document
                      \<lparr>d_name := name,
                       d_description := set_nullable (du_description request) (d_description document),
                       d_expires_at := set_nullable (du_expires_at request) (d_expires_at document),
                       d_control_id := set_nullable (du_control_id request) (d_control_id document),
                       d_task_id := set_nullable (du_task_id request) (d_task_id document)\<rparr>
                in if document' = document
                   then (db, Inr \<lparr>attrs = document, updated_at_expired = False\<rparr>)
                   else (db\<lparr>documents :=
                              map (\<lambda>d. if d_id d = d_id document
                                        then document'\<lparr>d_expires_at :=
                                                          map_option column_value (d_expires_at document'),
                                                        d_updated_at := column_value db_now\<rparr>
                                        else d) (documents db)\<rparr>,
                         Inr \<lparr>attrs = document', updated_at_expired = True\<rparr>))
           | None \<Rightarrow> (db, Inl IntegrityError)))"


text \<open>
  \<open>delete_document\<close> runs on the session and on the bucket.  The value that
  \<open>delete_file\<close> returns is not read.  \<open>delete_document_request\<close> is the handler under
  the scope of \<open>get_db\<close>, which rolls back the session and not the bucket.
\<close>

definition delete_document ::
  "string \<Rightarrow> principal \<Rightarrow> (string \<Rightarrow> error option) \<Rightarrow> database \<times> string set \<Rightarrow>
   (database \<times> string set) \<times> (error + string)" where
  "delete_document document_id current_user fault state =
     (case state of (db, bucket) \<Rightarrow>
        (case select_document document_id current_user db of
           Inl e \<Rightarrow> ((db, bucket), Inl e)
         | Inr None \<Rightarrow> ((db, bucket), Inl (HTTPException 404 ''Document not found''))
         | Inr (Some document) \<Rightarrow>
             (case delete_file fault (d_file_key document) bucket of
                (bucket', Inl e) \<Rightarrow> ((db, bucket'), Inl e)
              | (bucket', Inr _) \<Rightarrow>
                  ((db\<lparr>documents := filter (\<lambda>d. d_id d \<noteq> d_id document) (documents db)\<rparr>, bucket'),
                   Inr ''Document deleted successfully''))))"

definition delete_document_request ::
  "string \<Rightarrow> principal \<Rightarrow> (string \<Rightarrow> error option) \<Rightarrow> database \<times> string set \<Rightarrow>
   (database \<times> string set) \<times> (error + string)" where
  "delete_document_request document_id current_user fault state =
     (case delete_document document_id current_user fault state of
        ((session, bucket'), Inr response) \<Rightarrow> ((session, bucket'), Inr response)
      | ((session, bucket'), Inl e) \<Rightarrow> ((fst state, bucket'), Inl e))"

section \<open>Registration\<close>

text \<open>
  \<open>app/core/security.py\<close> and \<open>app/schemas/auth.py\<close> are outside the sources at hand.
  The functions \<open>register\<close> calls from the first are parameters, collected in
  \<open>security\<close>; a password hasher may raise.  \<open>RegisterRequest\<close> has the four fields
  \<open>register\<close> reads.
\<close>

record token_data =
  td_sub :: string
  td_email :: string
  td_organization_id :: string
  td_role :: string

record security =
  get_password_hash :: "string \<Rightarrow> error + string"
  create_access_token :: "token_data \<Rightarrow> string"
  create_refresh_token :: "token_data \<Rightarrow> string"

record RegisterRequest =
  rr_email :: string
  rr_name :: "string option"
  rr_password :: string
  rr_organization_name :: string

record TokenResponse =
  access_token :: string
  refresh_token :: string

text \<open>
  \<open>db.add(row); await db.flush()\<close>: the \<open>INSERT\<close>, which the store rejects with
  \<open>IntegrityError\<close> when the primary key or a unique column is taken.
\<close>

definition insert_organization :: "Organization \<Rightarrow> database \<Rightarrow> error + database" where
  "insert_organization row db =
     (if o_id row \<in> set (map o_id (organizations db)) then Inl IntegrityError
      else Inr (db\<lparr>organizations := organizations db @ [row]\<rparr>))"

definition insert_user :: "User \<Rightarrow> database \<Rightarrow> error + database" where
  "insert_user row db =
     (if u_id row \<in> set (map u_id (users db)) \<or> u_email row \<in> set (map u_email (users db))
      then Inl IntegrityError
      else Inr (db\<lparr>users := users db @ [row]\<rparr>))"

text \<open>
  The value an attribute of a mapped object holds in memory is the one it was given:
  a member of the enum when the row was loaded, the \<open>str\<close> itself when the code
  assigned a \<open>str\<close>.  \<open>attribute_value\<close> is the attribute access \<open>.value\<close>,
  which a \<open>str\<close> does not have.
\<close>

datatype role_attribute = PyUserRole UserRole | PyStr string

definition attribute_value :: "role_attribute \<Rightarrow> error + string" where
  "attribute_value a =
     (case a of PyUserRole r \<Rightarrow> Inr (UserRole_value r) | PyStr s \<Rightarrow> Inl AttributeError)"

text \<open>
  \<open>register\<close>.  \<open>org_uuid\<close> and \<open>user_uuid\<close> are the two results of
  \<open>generate_uuid\<close>, \<open>db_now\<close> the database's clock for the \<open>server_default\<close>
  timestamps, which the columns keep without zone.  The constructor is given \<open>role="admin"\<close>; the enum column writes it as
  the member it is equal to, and in memory \<open>user.role\<close> stays that \<open>str\<close>.
\<close>

definition register ::
  "security \<Rightarrow> RegisterRequest \<Rightarrow> string \<Rightarrow> string \<Rightarrow> datetime \<Rightarrow> TokenResponse handler" where
  "register sec request org_uuid user_uuid db_now db =
     (case scalar_one_or_none (filter (\<lambda>u. u_email u = rr_email request) (users db)) of
        Inl e \<Rightarrow> (db, Inl e)
      | Inr (Some existing) \<Rightarrow> (db, Inl (HTTPException 400 ''Email already registered''))
      | Inr None \<Rightarrow>
          (let organization =
                 \<lparr>o_id = org_uuid, o_name = rr_organization_name request,
                  o_profile_type = STARTUP, o_created_at = column_value db_now,
                  o_updated_at = column_value db_now\<rparr>
           in case insert_organization organization db of
                Inl e \<Rightarrow> (db, Inl e)
              | Inr db1 \<Rightarrow>
                  (case get_password_hash sec (rr_password request) of
                     Inl e \<Rightarrow> (db1, Inl e)
                   | Inr password_hash \<Rightarrow>
                       (let role = PyStr ''admin'';
                            user =
                              \<lparr>u_id = user_uuid, u_email = rr_email request,
                               u_name = rr_name request, u_password_hash = password_hash,
                               u_role = ADMIN, u_organization_id = o_id organization,
                               u_created_at = column_value db_now,
                               u_updated_at = column_value db_now\<rparr>
                        in case insert_user user db1 of
                             Inl e \<Rightarrow> (db1, Inl e)
                           | Inr db2 \<Rightarrow>
                               (case attribute_value role of
                                  Inl e \<Rightarrow> (db2, Inl e)
                                | Inr role_value \<Rightarrow>
                                    (let token_data =
                                           \<lparr>td_sub = u_id user, td_email = u_email user,
                                            td_organization_id = o_id organization,
                                            td_role = role_value\<rparr>
                                     in (db2,
                                         Inr \<lparr>access_token = create_access_token sec token_data,
                                              refresh_token =
                                                create_refresh_token sec token_data\<rparr>)))))))"

text \<open>
  Modelled from the spec: the error taxonomy of its section 7, which the routers do not
  have (they raise status codes only).  404 is \<open>NotFound\<close>, 401 \<open>Unauthenticated\<close>,
  403 \<open>Forbidden\<close>, 422 \<open>ValidationError\<close>; the one use of 400 in the routers is the
  duplicate e-mail of \<open>register\<close>, the case the specification names \<open>Conflict\<close>.
\<close>

datatype error_kind =
  Unauthenticated | Forbidden | NotFound | Conflict | ValidationError | Unclassified

definition error_kind_of :: "error \<Rightarrow> error_kind" where
  "error_kind_of e =
     (case e of
        HTTPException code detail \<Rightarrow>
          (if code = 401 then Unauthenticated
           else if code = 403 then Forbidden
           else if code = 404 then NotFound
           else if code = 400 then Conflict
           else if code = 422 then ValidationError
           else Unclassified)
      | _ \<Rightarrow> Unclassified)"

section \<open>Aggregation engine\<close>

text \<open>
  The backend the settings select: \<open>DATABASE_TYPE\<close> is \<open>"sqlite"\<close> by default, with
  the version of the SQLite library, or \<open>"mysql"\<close>.  \<open>func.if_\<close> renders the SQL
  function \<open>if(cond, a, b)\<close>, which MySQL has and SQLite has from version 3.48; on an
  older SQLite a query that calls it is refused (\<open>OperationalError\<close>, no such function).
\<close>

datatype backend = MySQL | SQLite nat nat

fun has_if :: "backend \<Rightarrow> bool" where
  "has_if MySQL = True"
| "has_if (SQLite major minor) = (3 < major \<or> (major = 3 \<and> 48 \<le> minor))"

definition execute_with_if :: "backend \<Rightarrow> 'a \<Rightarrow> error + 'a" where
  "execute_with_if engine row = (if has_if engine then Inr row else Inl OperationalError)"

text \<open>
  The SQL aggregates of \<open>get_organization_stats\<close>: \<open>count\<close>, \<open>sum\<close> (which is
  \<open>NULL\<close> over no rows), the function \<open>if(cond, 1, 0)\<close> where the backend has it, and
  Python's \<open>x or 0\<close> on a result that may be \<open>None\<close>.
\<close>

definition sql_count :: "'a list \<Rightarrow> int" where
  "sql_count rows = int (length rows)"

definition sql_sum :: "int list \<Rightarrow> int option" where
  "sql_sum xs = (if xs = [] then None else Some (sum_list xs))"

definition sql_if :: "bool \<Rightarrow> int \<Rightarrow> int \<Rightarrow> int" where
  "sql_if c a b = (if c then a else b)"

definition or_zero :: "int option \<Rightarrow> int" where
  "or_zero x = (case x of None \<Rightarrow> 0 | Some v \<Rightarrow> if v = 0 then 0 else v)"

record OrganizationStatsResponse =
  total_controls :: int
  completed_controls :: int
  in_progress_controls :: int
  not_started_controls :: int
  total_tasks :: int
  completed_tasks :: int
  overdue_tasks :: int
  total_documents :: int
  expiring_documents :: int

text \<open>
  \<open>get_organization_stats\<close>: five queries in the order of the source.  The control
  query and the task query call \<open>if\<close>; the overdue, document and expiring queries are a
  plain \<open>count\<close> with a \<open>WHERE\<close> clause.
\<close>

definition get_organization_stats ::
  "backend \<Rightarrow> principal \<Rightarrow> datetime \<Rightarrow> OrganizationStatsResponse handler" where
  "get_organization_stats engine current_user now db =
     (let org_id = cu_organization_id current_user;
          control_rows = filter (\<lambda>oc. oc_organization_id oc = org_id) (organization_controls db)
      in case execute_with_if engine
                (sql_count control_rows,
                 sql_sum (map (\<lambda>oc. sql_if (oc_status oc = COMPLETED) 1 0) control_rows),
                 sql_sum (map (\<lambda>oc. sql_if (oc_status oc = ControlStatus.IN_PROGRESS) 1 0) control_rows),
                 sql_sum (map (\<lambda>oc. sql_if (oc_status oc = NOT_STARTED) 1 0) control_rows)) of
           Inl e \<Rightarrow> (db, Inl e)
         | Inr (control_total, control_completed, control_in_progress, control_not_started) \<Rightarrow>
             (let task_rows = filter (\<lambda>t. t_organization_id t = org_id) (tasks db)
              in case execute_with_if engine
                        (sql_count task_rows,
                         sql_sum (map (\<lambda>t. sql_if (t_status t = DONE) 1 0) task_rows)) of
                   Inl e \<Rightarrow> (db, Inl e)
                 | Inr (task_total, task_completed) \<Rightarrow>
                     (let overdue_count =
                            or_zero (Some (sql_count
                              (filter (\<lambda>t. t_organization_id t = org_id \<and> t_status t \<noteq> DONE \<and>
                                            sql_lt (t_due_date t) now) (tasks db))));
                          doc_total =
                            sql_count (filter (\<lambda>d. d_organization_id d = org_id) (documents db));
                          expiring_count =
                            or_zero (Some (sql_count
                              (filter (\<lambda>d. d_organization_id d = org_id \<and> d_expires_at d \<noteq> None \<and>
                                            sql_le (d_expires_at d) (add_days now 30))
                                 (documents db))))
                      in (db, Inr \<lparr>total_controls = or_zero (Some control_total),
                                    completed_controls = or_zero control_completed,
                                    in_progress_controls = or_zero control_in_progress,
                                    not_started_controls = or_zero control_not_started,
                                    total_tasks = or_zero (Some task_total),
                                    completed_tasks = or_zero task_completed,
                                    overdue_tasks = overdue_count,
                                    total_documents = or_zero (Some doc_total),
                                    expiring_documents = expiring_count\<rparr>))))"

section \<open>Example data\<close>

text \<open>
  Two tenants, Acme and Beta, with their tasks, adopted controls and documents, as in
  the end-to-end scenario of the specification.  Ordinal 738886 is 2024-01-01.  The
  timestamps in the rows have no zone, as the columns return them.
\<close>

definition utc_datetime :: "int \<Rightarrow> nat \<Rightarrow> datetime" where
  "utc_datetime day h =
     \<lparr>ordinal = day, hour = h, minute = 0, second = 0, microsecond = 0, tzinfo = Some 0\<rparr>"

definition naive_datetime :: "int \<Rightarrow> nat \<Rightarrow> datetime" where
  "naive_datetime day h =
     \<lparr>ordinal = day, hour = h, minute = 0, second = 0, microsecond = 0, tzinfo = None\<rparr>"

definition zoned_datetime :: "int \<Rightarrow> nat \<Rightarrow> int \<Rightarrow> datetime" where
  "zoned_datetime day h offset_hours =
     \<lparr>ordinal = day, hour = h, minute = 0, second = 0, microsecond = 0,
      tzinfo = Some (offset_hours * 3600000000)\<rparr>"

definition acme_admin :: principal where
  "acme_admin = \<lparr>cu_user_id = ''u-acme'', cu_organization_id = ''acme'', cu_role = ''admin''\<rparr>"

definition beta_admin :: principal where
  "beta_admin = \<lparr>cu_user_id = ''u-beta'', cu_organization_id = ''beta'', cu_role = ''admin''\<rparr>"

definition example_task :: "string \<Rightarrow> string \<Rightarrow> TaskStatus \<Rightarrow> TaskPriority \<Rightarrow> datetime option \<Rightarrow> Task" where
  "example_task i org st pr due =
     \<lparr>t_id = i, t_title = ''Write policy'', t_description = Some ''Access control policy'',
      t_status = st, t_priority = pr, t_due_date = due, t_recurring_rule = None,
      t_organization_id = org, t_control_id = None, t_assignee_id = None,
      t_created_at = naive_datetime 738880 9, t_updated_at = naive_datetime 738880 9\<rparr>"

definition example_catalog :: "string \<Rightarrow> string \<Rightarrow> Control" where
  "example_catalog code cat =
     \<lparr>c_id = ''c-'' @ code, c_control_id = code, c_name_en = ''Policies'', c_name_ko = ''Policies'',
      c_description_en = None, c_description_ko = None, c_category = cat,
      c_category_name_en = ''Organizational'', c_category_name_ko = ''Organizational''\<rparr>"

definition example_control :: "string \<Rightarrow> string \<Rightarrow> ControlStatus \<Rightarrow> Control \<Rightarrow> OrganizationControl" where
  "example_control i org st ctl =
     \<lparr>oc_id = i, oc_organization_id = org, oc_control_id = c_id ctl, oc_status = st,
      oc_is_applicable = True, oc_notes = Some ''n'', oc_created_at = naive_datetime 738880 9,
      oc_updated_at = naive_datetime 738880 9, oc_control = ctl\<rparr>"

definition example_document :: "string \<Rightarrow> string \<Rightarrow> datetime option \<Rightarrow> Document" where
  "example_document i org expires =
     \<lparr>d_id = i, d_name = ''policy.pdf'', d_description = None, d_file_key = org @ ''/documents/'' @ i,
      d_file_size = 1024, d_mime_type = ''application/pdf'', d_version = 1, d_expires_at = expires,
      d_organization_id = org, d_control_id = None, d_task_id = None,
      d_uploaded_by_id = ''u-'' @ org, d_created_at = naive_datetime 738880 9,
      d_updated_at = naive_datetime 738880 9\<rparr>"

definition example_user :: "string \<Rightarrow> string \<Rightarrow> string \<Rightarrow> User" where
  "example_user i org email =
     \<lparr>u_id = i, u_email = email, u_name = None, u_password_hash = ''h'', u_role = ADMIN,
      u_organization_id = org, u_created_at = naive_datetime 738880 9,
      u_updated_at = naive_datetime 738880 9\<rparr>"

definition example_organization :: "string \<Rightarrow> Organization" where
  "example_organization i =
     \<lparr>o_id = i, o_name = i, o_profile_type = STARTUP, o_created_at = naive_datetime 738880 9,
      o_updated_at = naive_datetime 738880 9\<rparr>"

definition example_db :: database where
  "example_db =
     \<lparr>organizations = [example_organization ''acme'', example_organization ''beta''],
      users = [example_user ''u-acme'' ''acme'' ''a@acme.com'',
               example_user ''u-beta'' ''beta'' ''b@beta.com''],
      organization_controls =
        [example_control ''oc1'' ''acme'' COMPLETED (example_catalog ''A.6.1'' ''A.6''),
         example_control ''oc2'' ''acme'' NOT_STARTED (example_catalog ''A.5.1'' ''A.5''),
         example_control ''oc3'' ''acme'' COMPLETED (example_catalog ''A.5.2'' ''A.5''),
         example_control ''oc4'' ''beta'' ControlStatus.IN_PROGRESS (example_catalog ''A.5.1'' ''A.5'')],
      tasks =
        [example_task ''t1'' ''acme'' TODO HIGH (Some (naive_datetime 738886 9)),
         example_task ''t2'' ''acme'' DONE LOW None,
         example_task ''t3'' ''beta'' TODO MEDIUM (Some (naive_datetime 738890 9))],
      documents =
        [example_document ''d1'' ''acme'' (Some (naive_datetime 738900 0)),
         example_document ''d2'' ''beta'' None]\<rparr>"

definition example_security :: security where
  "example_security =
     \<lparr>get_password_hash = (\<lambda>p. if length p > 72 then Inl ValueError else Inr (''hash:'' @ p)),
      create_access_token = (\<lambda>td. ''access:'' @ td_sub td),
      create_refresh_token = (\<lambda>td. ''refresh:'' @ td_sub td)\<rparr>"

text \<open>
  A stand-in for the engine's matcher in the examples (the pattern is the value between
  two wildcards), and the example store with a single task whose due date has no zone.
\<close>

definition example_ilike :: "string \<Rightarrow> string \<Rightarrow> bool" where
  "example_ilike v pattern \<longleftrightarrow> pattern = ''%'' @ v @ ''%''"

definition naive_due_db :: database where
  "naive_due_db = example_db\<lparr>tasks :=
      [example_task ''t1'' ''acme'' TODO HIGH (Some (naive_datetime 738885 9))]\<rparr>"

text \<open>A registration whose password is longer than the example hasher accepts.\<close>

definition long_password_request :: RegisterRequest where
  "long_password_request =
     \<lparr>rr_email = ''g@gamma.com'', rr_name = Some ''G'', rr_password = replicate 73 CHR ''x'',
      rr_organization_name = ''Gamma''\<rparr>"

text \<open>
  A registration that passes every check, a handler that returns, and the requests of the
  update examples.
\<close>

definition gamma_request :: RegisterRequest where
  "gamma_request =
     \<lparr>rr_email = ''g@gamma.com'', rr_name = Some ''G'', rr_password = ''pw'',
      rr_organization_name = ''Gamma''\<rparr>"

definition returning_handler :: "TokenResponse handler" where
  "returning_handler db =
     (db\<lparr>organizations := organizations db @ [example_organization ''delta'']\<rparr>,
      Inr \<lparr>access_token = ''a'', refresh_token = ''r''\<rparr>)"



definition mark_done :: TaskUpdate where
  "mark_done =
     \<lparr>tu_title = None, tu_description = None, tu_status = Some (Some DONE), tu_priority = None,
      tu_due_date = None, tu_control_id = None, tu_assignee_id = None,
      tu_recurring_rule = None\<rparr>"

section \<open>Notions of the specification\<close>

text \<open>
  A task is overdue when it has a due date earlier than now and its status is not done;
  \<open>due_dates_aware\<close> says that every due date in a list of tasks carries a zone.
\<close>

definition overdue_at :: "datetime \<Rightarrow> Task \<Rightarrow> bool" where
  "overdue_at now t \<longleftrightarrow>
     (case t_due_date t of None \<Rightarrow> False | Some due \<Rightarrow> utc_us due < utc_us now) \<and>
     t_status t \<noteq> DONE"

definition due_dates_aware :: "Task list \<Rightarrow> bool" where
  "due_dates_aware ts \<longleftrightarrow>
     list_all (\<lambda>t. case t_due_date t of None \<Rightarrow> True | Some due \<Rightarrow> tzinfo due \<noteq> None) ts"

text \<open>
  Grouping by category: the adoption set of the caller's organization, the category
  code of an adopted control, and what it means for a dict to be the grouping of a list
  of controls: one entry per category code that occurs, holding the controls of that
  category in order and the number of them that are completed.
\<close>

definition adoption_set :: "principal \<Rightarrow> database \<Rightarrow> OrganizationControl list" where
  "adoption_set current_user db =
     filter (\<lambda>oc. oc_organization_id oc = cu_organization_id current_user)
       (organization_controls db)"

definition category_of :: "OrganizationControl \<Rightarrow> string" where
  "category_of ctrl = c_category (oc_control ctrl)"

definition grouped :: "OrganizationControl list \<Rightarrow> category_data dict \<Rightarrow> bool" where
  "grouped controls categories \<longleftrightarrow>
     distinct (map fst categories) \<and>
     set (map fst categories) = category_of ` set controls \<and>
     (\<forall>(cat, data) \<in> set categories.
        cd_category data = cat \<and>
        cd_controls data = filter (\<lambda>c. category_of c = cat) controls \<and>
        cd_completed data = int (length (filter (\<lambda>c. oc_status c = COMPLETED) (cd_controls data))))"

text \<open>
  Partial update: a field the request sets takes the value sent, a field it omits keeps
  its prior value.  For a \<open>nullable=False\<close> column both values are wrapped in \<open>Some\<close>,
  so that a request that sets it to \<open>null\<close> does not qualify.
\<close>

definition field_updated :: "'a option option \<Rightarrow> 'a option \<Rightarrow> 'a option \<Rightarrow> bool" where
  "field_updated field old new \<longleftrightarrow> (case field of None \<Rightarrow> new = old | Some v \<Rightarrow> new = v)"

definition task_updated :: "TaskUpdate \<Rightarrow> Task \<Rightarrow> Task \<Rightarrow> bool" where
  "task_updated request old new \<longleftrightarrow>
     field_updated (tu_title request) (Some (t_title old)) (Some (t_title new)) \<and>
     field_updated (tu_description request) (t_description old) (t_description new) \<and>
     field_updated (tu_status request) (Some (t_status old)) (Some (t_status new)) \<and>
     field_updated (tu_priority request) (Some (t_priority old)) (Some (t_priority new)) \<and>
     field_updated (tu_due_date request) (t_due_date old) (t_due_date new) \<and>
     field_updated (tu_control_id request) (t_control_id old) (t_control_id new) \<and>
     field_updated (tu_assignee_id request) (t_assignee_id old) (t_assignee_id new) \<and>
     field_updated (tu_recurring_rule request) (t_recurring_rule old) (t_recurring_rule new) \<and>
     t_id new = t_id old \<and> t_organization_id new = t_organization_id old \<and>
     t_created_at new = t_created_at old"

definition control_updated :: "OrganizationControlUpdate \<Rightarrow> OrganizationControl \<Rightarrow> OrganizationControl \<Rightarrow> bool" where
  "control_updated request old new \<longleftrightarrow>
     field_updated (ocu_status request) (Some (oc_status old)) (Some (oc_status new)) \<and>
     field_updated (ocu_is_applicable request) (Some (oc_is_applicable old))
       (Some (oc_is_applicable new)) \<and>
     field_updated (ocu_notes request) (oc_notes old) (oc_notes new) \<and>
     oc_id new = oc_id old \<and> oc_organization_id new = oc_organization_id old \<and>
     oc_control_id new = oc_control_id old \<and> oc_control new = oc_control old \<and>
     oc_created_at new = oc_created_at old"


text \<open>A request that sets a \<open>nullable=False\<close> column to \<open>null\<close>.\<close>

definition nulls_required_task :: "TaskUpdate \<Rightarrow> bool" where
  "nulls_required_task request \<longleftrightarrow>
     tu_title request = Some None \<or> tu_status request = Some None \<or>
     tu_priority request = Some None"

definition nulls_required_control :: "OrganizationControlUpdate \<Rightarrow> bool" where
  "nulls_required_control request \<longleftrightarrow>
     ocu_status request = Some None \<or> ocu_is_applicable request = Some None"


section \<open>Properties of the D-day label\<close>

lemma wall_us_replace_midnight: "wall_us (replace_midnight d) = ordinal d * us_per_day"
  by (simp add: wall_us_def replace_midnight_def)

lemma tzinfo_replace_midnight: "tzinfo (replace_midnight d) = tzinfo d"
  by (simp add: replace_midnight_def)

lemma time_of_day_bounds:
  assumes "valid_datetime d"
  shows "ordinal d * us_per_day \<le> wall_us d" and "wall_us d < ordinal d * us_per_day + us_per_day"
  using assms by (auto simp: valid_datetime_def wall_us_def us_per_day_def)

lemma div_day_unique:
  assumes "q * us_per_day \<le> x" and "x < q * us_per_day + us_per_day"
  shows "x div us_per_day = q"
proof -
  define r where "r = x - q * us_per_day"
  have r: "0 \<le> r" "r < us_per_day" using assms by (simp_all add: r_def)
  have "x = r + q * us_per_day" by (simp add: r_def)
  then have "x div us_per_day = q + r div us_per_day"
    by (simp add: us_per_day_def)
  with r show ?thesis by (simp add: div_pos_pos_trivial)
qed

lemma utc_day_unzoned:
  assumes "valid_datetime d" and "tzinfo d = None \<or> tzinfo d = Some 0"
  shows "utc_day d = ordinal d"
proof -
  have "utc_us d = wall_us d" using assms(2) by (auto simp: utc_us_def)
  then show ?thesis
    unfolding utc_day_def using time_of_day_bounds[OF assms(1)] by (simp add: div_day_unique)
qed

lemma calculate_dday_unzoned:
  assumes "tzinfo now = Some 0" and "tzinfo due = None \<or> tzinfo due = Some 0"
  shows "calculate_dday now (Some due) =
     Inr (let diff = ordinal due - ordinal now in
           if diff = 0 then (Some ''D-Day'', False)
           else if diff > 0 then (Some (''D-'' @ str_int diff), False)
           else (Some (''D+'' @ str_int (abs diff)), True))"
  using assms
  by (auto simp: calculate_dday_def datetime_sub_def wall_us_def replace_midnight_def
      timedelta_days_def us_per_day_def Let_def)

text \<open>
  Claim C2, amended.  For every due timestamp that carries no zone or a zero UTC offset,
  and every current instant, \<open>calculate_dday\<close> returns what the D-day algorithm of the
  specification gives: with \<open>diff\<close> the difference of the two UTC calendar days, the
  label is \<open>D-Day\<close> for \<open>diff = 0\<close>, \<open>D-{diff}\<close> for \<open>diff > 0\<close>, and
  \<open>D+{abs(diff)}\<close> with \<open>is_overdue\<close> for \<open>diff < 0\<close>; a null due date gives no label
  and \<open>is_overdue = False\<close>.
\<close>

theorem calculate_dday_utc_days:
  assumes "valid_datetime now" and "tzinfo now = Some 0"
    and "valid_datetime due" and "tzinfo due = None \<or> tzinfo due = Some 0"
  shows "calculate_dday now (Some due) = Inr (spec_dday now (Some due)) \<and>
         calculate_dday now None = Inr (None, False) \<and>
         spec_dday now (Some due) =
           (let diff = utc_day due - utc_day now in
            if diff = 0 then (Some ''D-Day'', False)
            else if diff > 0 then (Some (''D-'' @ str_int diff), False)
            else (Some (''D+'' @ str_int (abs diff)), True))"
proof -
  have d: "utc_day due = ordinal due" using assms(3,4) by (rule utc_day_unzoned)
  have n: "utc_day now = ordinal now" using assms(1,2) by (simp add: utc_day_unzoned)
  have "calculate_dday now (Some due) = Inr (spec_dday now (Some due))"
    unfolding calculate_dday_unzoned[OF assms(2,4)] spec_dday_def option.case d n ..
  moreover have "calculate_dday now None = Inr (None, False)"
    by (simp add: calculate_dday_def)
  moreover have "spec_dday now (Some due) =
           (let diff = utc_day due - utc_day now in
            if diff = 0 then (Some ''D-Day'', False)
            else if diff > 0 then (Some (''D-'' @ str_int diff), False)
            else (Some (''D+'' @ str_int (abs diff)), True))"
    by (simp add: spec_dday_def)
  ultimately show ?thesis by blast
qed

text \<open>Due in five days, stored without a zone: \<open>D-5\<close>.\<close>

lemma str_int_5: "str_int 5 = ''5''"
  by (simp add: str_int_def str_nat.simps digit_char_def)

theorem calculate_dday_utc_days_witness:
  "valid_datetime (utc_datetime 738886 12) \<and> tzinfo (utc_datetime 738886 12) = Some 0 \<and>
   valid_datetime (naive_datetime 738891 9) \<and> tzinfo (naive_datetime 738891 9) = None \<and>
   calculate_dday (utc_datetime 738886 12) (Some (naive_datetime 738891 9)) = Inr (Some ''D-5'', False)"
proof -
  have a: "valid_datetime (utc_datetime 738886 12)" "tzinfo (utc_datetime 738886 12) = Some 0"
    "valid_datetime (naive_datetime 738891 9)" "tzinfo (naive_datetime 738891 9) = None"
    by (simp_all add: valid_datetime_def utc_datetime_def naive_datetime_def)
  have u: "utc_day (naive_datetime 738891 9) = 738891" "utc_day (utc_datetime 738886 12) = 738886"
    by (simp_all add: utc_day_def utc_us_def wall_us_def us_per_day_def utc_datetime_def naive_datetime_def)
  have "spec_dday (utc_datetime 738886 12) (Some (naive_datetime 738891 9)) = (Some ''D-5'', False)"
    by (simp add: spec_dday_def u str_int_5)
  with calculate_dday_utc_days[OF a(1,2,3)] a show ?thesis by simp
qed

text \<open>
  Claim C2 as stated fails for a due timestamp with a zone other than UTC: its time of
  day is zeroed in its own zone.  Due 2024-01-01 20:00 at UTC-5 is 2024-01-02 01:00 UTC,
  one UTC day after now (2024-01-01 12:00 UTC), and the label is \<open>D-Day\<close>, not
  \<open>D-1\<close>.
\<close>

theorem calculate_dday_zoned_counterexample:
  "valid_datetime (zoned_datetime 738886 20 (- 5)) \<and>
   calculate_dday (utc_datetime 738886 12) (Some (zoned_datetime 738886 20 (- 5))) = Inr (Some ''D-Day'', False) \<and>
   spec_dday (utc_datetime 738886 12) (Some (zoned_datetime 738886 20 (- 5))) = (Some ''D-1'', False)"
  by (simp add: valid_datetime_def calculate_dday_def spec_dday_def zoned_datetime_def utc_datetime_def
      datetime_sub_def timedelta_days_def replace_midnight_def utc_day_def utc_us_def wall_us_def us_per_day_def
      str_int_def str_nat.simps digit_char_def)

section \<open>Properties of the list aggregates\<close>

lemma dict_get_Cons:
  "dict_get ((k', v') # d) k dflt = (if k' = k then v' else dict_get d k dflt)"
  by (simp add: dict_get_def)

lemma sum_dict_set_increment:
  fixes d :: "int dict"
  shows "sum_list (dict_values (dict_set d k (dict_get d k 0 + 1))) = sum_list (dict_values d) + 1"
proof (induction d)
  case Nil
  show ?case by (simp add: dict_values_def dict_get_def)
next
  case (Cons p d)
  obtain k' v' where p: "p = (k', v')" by (cases p)
  show ?case
  proof (cases "k' = k")
    case True
    then show ?thesis by (simp add: p dict_values_def dict_get_Cons)
  next
    case False
    have "dict_set (p # d) k (dict_get (p # d) k 0 + 1) = p # dict_set d k (dict_get d k 0 + 1)"
      using False by (simp add: p dict_get_Cons)
    then show ?thesis using Cons.IH by (simp add: dict_values_def)
  qed
qed

lemma datetime_lt_aware:
  assumes "tzinfo a \<noteq> None" and "tzinfo b \<noteq> None"
  shows "datetime_lt a b = Inr (utc_us a < utc_us b)"
  using assms by (auto simp: datetime_lt_def utc_us_def)

lemma datetime_lt_naive_aware:
  assumes "tzinfo a = None" and "tzinfo b \<noteq> None"
  shows "datetime_lt a b = Inl TypeError"
  using assms by (auto simp: datetime_lt_def)

lemma is_overdue_aware:
  assumes "tzinfo now \<noteq> None" and "due_dates_aware [t]"
  shows "is_overdue now t = Inr (overdue_at now t)"
  using assms
  by (auto simp: is_overdue_def overdue_at_def due_dates_aware_def datetime_lt_aware split: option.splits)

lemma is_overdue_naive:
  assumes "tzinfo now \<noteq> None" and "t_due_date t = Some due" and "tzinfo due = None"
  shows "is_overdue now t = Inl TypeError"
  using assms by (simp add: is_overdue_def datetime_lt_naive_aware)

lemma is_overdue_error:
  assumes "is_overdue now t = Inl e"
  shows "e = TypeError"
  using assms
  by (auto simp: is_overdue_def datetime_lt_def split: option.splits if_splits)

lemma task_stats_aware:
  assumes "tzinfo now \<noteq> None" and "due_dates_aware ts"
  shows "\<exists>by_status' by_priority'.
           task_stats now ts (by_status, by_priority, n) =
             Inr (by_status', by_priority', n + int (length (filter (overdue_at now) ts))) \<and>
           sum_list (dict_values by_status') = sum_list (dict_values by_status) + int (length ts) \<and>
           sum_list (dict_values by_priority') = sum_list (dict_values by_priority) + int (length ts)"
  using assms(2)
proof (induction ts arbitrary: by_status by_priority n)
  case Nil
  show ?case by simp
next
  case (Cons t ts)
  have t: "is_overdue now t = Inr (overdue_at now t)"
    using Cons.prems assms(1) by (simp add: is_overdue_aware due_dates_aware_def)
  have rest: "due_dates_aware ts" using Cons.prems by (simp add: due_dates_aware_def)
  let ?bs = "dict_set by_status (TaskStatus_value (t_status t))
               (dict_get by_status (TaskStatus_value (t_status t)) 0 + 1)"
  let ?bp = "dict_set by_priority (TaskPriority_value (t_priority t))
               (dict_get by_priority (TaskPriority_value (t_priority t)) 0 + 1)"
  let ?n = "if overdue_at now t then n + 1 else n"
  have step: "task_stats now (t # ts) (by_status, by_priority, n) = task_stats now ts (?bs, ?bp, ?n)"
    by (simp add: t Let_def)
  from Cons.IH[OF rest, of ?bs ?bp ?n] obtain bs' bp' where
    r: "task_stats now ts (?bs, ?bp, ?n) = Inr (bs', bp', ?n + int (length (filter (overdue_at now) ts)))"
    and s: "sum_list (dict_values bs') = sum_list (dict_values ?bs) + int (length ts)"
    and p: "sum_list (dict_values bp') = sum_list (dict_values ?bp) + int (length ts)"
    by blast
  have n: "?n + int (length (filter (overdue_at now) ts)) = n + int (length (filter (overdue_at now) (t # ts)))"
    by simp
  show ?case
    unfolding step r n using s p by (simp add: sum_dict_set_increment)
qed

lemma task_stats_naive:
  assumes "tzinfo now \<noteq> None" and "\<not> due_dates_aware ts"
  shows "task_stats now ts acc = Inl TypeError"
  using assms(2)
proof (induction ts arbitrary: acc)
  case Nil
  then show ?case by (simp add: due_dates_aware_def)
next
  case (Cons t ts)
  obtain bs bp n where acc: "acc = (bs, bp, n)" by (cases acc)
  show ?case
  proof (cases "is_overdue now t")
    case (Inl e)
    then show ?thesis using is_overdue_error[OF Inl] by (simp add: acc Let_def)
  next
    case (Inr b)
    have "due_dates_aware [t]"
      using Inr assms(1) is_overdue_naive[of now t]
      by (auto simp: due_dates_aware_def split: option.splits)
    then have "\<not> due_dates_aware ts" using Cons.prems by (simp add: due_dates_aware_def)
    then show ?thesis using Cons.IH Inr by (simp add: acc Let_def)
  qed
qed

lemma list_tasks_aggregates:
  assumes "tzinfo now \<noteq> None"
    and "due_dates_aware (list_tasks_query ilike status priority control_id assignee_id overdue_only search (cu_organization_id current_user) now db)"
  shows "\<exists>resp.
     list_tasks ilike status priority control_id assignee_id overdue_only search current_user now db
       = (db, Inr resp) \<and>
     tl_tasks resp = list_tasks_query ilike status priority control_id assignee_id overdue_only
                       search (cu_organization_id current_user) now db \<and>
     tl_total resp = int (length (tl_tasks resp)) \<and>
     sum_list (dict_values (tl_by_status resp)) = tl_total resp \<and>
     sum_list (dict_values (tl_by_priority resp)) = tl_total resp \<and>
     tl_overdue_count resp = int (length (filter (overdue_at now) (tl_tasks resp)))"
proof -
  let ?ts = "list_tasks_query ilike status priority control_id assignee_id overdue_only search
               (cu_organization_id current_user) now db"
  from task_stats_aware[OF assms, of "[]" "[]" 0] obtain bs bp where
    r: "task_stats now ?ts ([], [], 0) = Inr (bs, bp, 0 + int (length (filter (overdue_at now) ?ts)))"
    and s: "sum_list (dict_values bs) = sum_list (dict_values []) + int (length ?ts)"
    and p: "sum_list (dict_values bp) = sum_list (dict_values []) + int (length ?ts)"
    by blast
  show ?thesis
    unfolding list_tasks_def Let_def r using s p by (simp add: dict_values_def)
qed

lemma list_tasks_raises:
  assumes "tzinfo now \<noteq> None"
    and "\<not> due_dates_aware (list_tasks_query ilike status priority control_id assignee_id overdue_only search (cu_organization_id current_user) now db)"
  shows "list_tasks ilike status priority control_id assignee_id overdue_only search current_user now db
       = (db, Inl TypeError)"
  unfolding list_tasks_def Let_def task_stats_naive[OF assms] by simp

lemma dict_values_Nil: "dict_values [] = []"
  by (simp add: dict_values_def)

lemma sum_count_by:
  "sum_list (dict_values (count_by key xs d)) = sum_list (dict_values d) + int (length xs)"
  by (induction xs arbitrary: d) (simp_all add: sum_dict_set_increment)

lemma list_controls_aggregates:
  assumes "\<not> (truthy category \<and> truthy search)"
  shows "\<exists>resp. list_controls ilike status category search current_user db = (db, Inr resp) \<and>
     cl_controls resp = list_controls_query ilike status category search (cu_organization_id current_user) db \<and>
     cl_total resp = int (length (cl_controls resp)) \<and>
     sum_list (dict_values (cl_by_status resp)) = cl_total resp \<and>
     sum_list (dict_values (cl_by_category resp)) = cl_total resp"
  using assms by (simp add: list_controls_def Let_def sum_count_by dict_values_Nil)

lemma list_controls_double_join:
  assumes "truthy category" and "truthy search"
  shows "list_controls ilike status category search current_user db = (db, Inl OperationalError)"
  using assms by (simp add: list_controls_def)

text \<open>
  Each entry of \<open>by_status\<close>, \<open>by_priority\<close> and \<open>by_category\<close> is the number of
  returned rows with that key, in every response.
\<close>

lemma dict_get_dict_set:
  "dict_get (dict_set d k v) k' dflt = (if k' = k then v else dict_get d k' dflt)"
proof (induction d)
  case Nil
  show ?case by (simp add: dict_get_def)
next
  case (Cons p d)
  obtain a b where p: "p = (a, b)" by (cases p)
  show ?case
  proof (cases "a = k")
    case True
    then show ?thesis by (simp add: p dict_get_Cons)
  next
    case False
    then show ?thesis using Cons.IH by (auto simp: p dict_get_Cons)
  qed
qed

lemma dict_get_Nil: "dict_get [] k dflt = dflt"
  by (simp add: dict_get_def)

lemma count_by_per_key:
  "dict_get (count_by key xs d) k 0 = dict_get d k 0 + int (length (filter (\<lambda>x. key x = k) xs))"
proof (induction xs arbitrary: d)
  case Nil
  show ?case by simp
next
  case (Cons x xs)
  show ?case
    unfolding count_by.simps Cons.IH by (simp add: dict_get_dict_set)
qed

lemma list_controls_per_key:
  assumes "\<not> (truthy category \<and> truthy search)"
  shows "\<exists>resp. list_controls ilike status category search current_user db = (db, Inr resp) \<and>
     (\<forall>k. dict_get (cl_by_status resp) k 0
            = int (length (filter (\<lambda>c. ControlStatus_value (oc_status c) = k) (cl_controls resp)))) \<and>
     (\<forall>k. dict_get (cl_by_category resp) k 0
            = int (length (filter (\<lambda>c. c_category (oc_control c) = k) (cl_controls resp))))"
  using assms by (simp add: list_controls_def Let_def count_by_per_key dict_get_Nil)

lemma task_stats_per_key:
  assumes "task_stats now ts (by_status, by_priority, n) = Inr (by_status', by_priority', n')"
  shows "dict_get by_status' k 0
           = dict_get by_status k 0
             + int (length (filter (\<lambda>t. TaskStatus_value (t_status t) = k) ts)) \<and>
         dict_get by_priority' k 0
           = dict_get by_priority k 0
             + int (length (filter (\<lambda>t. TaskPriority_value (t_priority t) = k) ts))"
  using assms
proof (induction ts arbitrary: by_status by_priority n)
  case Nil
  then show ?case by simp
next
  case (Cons t ts)
  let ?bs = "dict_set by_status (TaskStatus_value (t_status t))
               (dict_get by_status (TaskStatus_value (t_status t)) 0 + 1)"
  let ?bp = "dict_set by_priority (TaskPriority_value (t_priority t))
               (dict_get by_priority (TaskPriority_value (t_priority t)) 0 + 1)"
  from Cons.prems obtain overdue where o: "is_overdue now t = Inr overdue"
    by (cases "is_overdue now t") (simp_all add: Let_def)
  let ?n = "if overdue then n + 1 else n"
  have "task_stats now ts (?bs, ?bp, ?n) = Inr (by_status', by_priority', n')"
    using Cons.prems by (simp add: o Let_def)
  from Cons.IH[OF this] show ?case by (simp add: dict_get_dict_set)
qed

lemma list_tasks_per_key:
  assumes "list_tasks ilike status priority control_id assignee_id overdue_only search
             current_user now db = (db', Inr resp)"
  shows "dict_get (tl_by_status resp) k 0
           = int (length (filter (\<lambda>t. TaskStatus_value (t_status t) = k) (tl_tasks resp))) \<and>
         dict_get (tl_by_priority resp) k 0
           = int (length (filter (\<lambda>t. TaskPriority_value (t_priority t) = k) (tl_tasks resp)))"
proof -
  let ?ts = "list_tasks_query ilike status priority control_id assignee_id overdue_only search
               (cu_organization_id current_user) now db"
  from assms obtain bs bp n where
    r: "task_stats now ?ts ([], [], 0) = Inr (bs, bp, n)"
    and resp: "resp = \<lparr>tl_tasks = ?ts, tl_total = int (length ?ts), tl_by_status = bs,
                       tl_by_priority = bp, tl_overdue_count = n\<rparr>"
    by (auto simp: list_tasks_def Let_def split: sum.splits prod.splits)
  from task_stats_per_key[OF r, of k] show ?thesis
    by (simp add: resp dict_get_Nil)
qed

section \<open>Tenant isolation\<close>

lemma primary_key_other_tenant:
  assumes "distinct (map key rows)" and "row \<in> set rows" and "owner row \<noteq> org"
  shows "filter (\<lambda>r. key r = key row \<and> owner r = org) rows = []"
proof -
  have "key r = key row \<Longrightarrow> r = row" if "r \<in> set rows" for r
    using assms(1,2) that by (meson distinct_map inj_onD)
  then have "\<forall>r \<in> set rows. \<not> (key r = key row \<and> owner r = org)"
    using assms(3) by blast
  then show ?thesis by (simp add: filter_empty_conv)
qed

lemma select_task_other_tenant:
  assumes "primary_keys db" and "task \<in> set (tasks db)"
    and "t_organization_id task \<noteq> cu_organization_id current_user"
  shows "select_task (t_id task) current_user db = Inr None"
proof -
  have "distinct (map t_id (tasks db))" using assms(1) by (simp add: primary_keys_def)
  from primary_key_other_tenant[OF this assms(2), of t_organization_id, OF assms(3)]
  show ?thesis by (simp add: select_task_def scalar_one_or_none_def)
qed

lemma select_control_other_tenant:
  assumes "primary_keys db" and "control \<in> set (organization_controls db)"
    and "oc_organization_id control \<noteq> cu_organization_id current_user"
  shows "select_control (oc_id control) current_user db = Inr None"
proof -
  have "distinct (map oc_id (organization_controls db))" using assms(1) by (simp add: primary_keys_def)
  from primary_key_other_tenant[OF this assms(2), of oc_organization_id, OF assms(3)]
  show ?thesis by (simp add: select_control_def scalar_one_or_none_def)
qed

lemma select_document_other_tenant:
  assumes "primary_keys db" and "document \<in> set (documents db)"
    and "d_organization_id document \<noteq> cu_organization_id current_user"
  shows "select_document (d_id document) current_user db = Inr None"
proof -
  have "distinct (map d_id (documents db))" using assms(1) by (simp add: primary_keys_def)
  from primary_key_other_tenant[OF this assms(2), of d_organization_id, OF assms(3)]
  show ?thesis by (simp add: select_document_def scalar_one_or_none_def)
qed

lemma get_db_raise: "handler db = (db', Inl e) \<Longrightarrow> get_db handler db = (db, Inl e)"
  by (simp add: get_db_def)

lemma get_db_return: "handler db = (db', Inr r) \<Longrightarrow> get_db handler db = (db', Inr r)"
  by (simp add: get_db_def)

lemma not_found_kind: "error_kind_of (HTTPException 404 detail) = NotFound"
  by (simp add: error_kind_of_def)

text \<open>
  Claim C1.  For two distinct organizations O1 and O2 and every task,
  organization-control or document that O2 owns, each of \<open>get_task\<close>, \<open>update_task\<close>,
  \<open>delete_task\<close>, \<open>get_control\<close>, \<open>update_control\<close>, \<open>get_document\<close>,
  \<open>update_document\<close> and \<open>delete_document\<close>, called with the record's id under O1's
  context, raises the 404 \<open>HTTPException\<close>, whose kind is \<open>NotFound\<close>; nothing is
  returned, and the store (and the bucket) after the request is the store before it, so
  the record is neither modified nor deleted.
\<close>

theorem cross_tenant_not_found:
  assumes "primary_keys db" and "cu_organization_id o1_user \<noteq> o2"
  shows
    "(\<forall>task \<in> set (tasks db). t_organization_id task = o2 \<longrightarrow>
        get_db (get_task (t_id task) o1_user) db = (db, Inl (HTTPException 404 ''Task not found'')) \<and>
        get_db (update_task (t_id task) task_request o1_user db_now) db
          = (db, Inl (HTTPException 404 ''Task not found'')) \<and>
        get_db (delete_task (t_id task) o1_user db_now) db = (db, Inl (HTTPException 404 ''Task not found''))) \<and>
     (\<forall>control \<in> set (organization_controls db). oc_organization_id control = o2 \<longrightarrow>
        get_db (get_control (oc_id control) o1_user) db
          = (db, Inl (HTTPException 404 ''Control not found'')) \<and>
        get_db (update_control (oc_id control) control_request o1_user db_now) db
          = (db, Inl (HTTPException 404 ''Control not found''))) \<and>
     (\<forall>document \<in> set (documents db). d_organization_id document = o2 \<longrightarrow>
        get_db (get_document (d_id document) o1_user) db
          = (db, Inl (HTTPException 404 ''Document not found'')) \<and>
        get_db (update_document (d_id document) document_request o1_user db_now) db
          = (db, Inl (HTTPException 404 ''Document not found'')) \<and>
        delete_document_request (d_id document) o1_user fault (db, bucket)
          = ((db, bucket), Inl (HTTPException 404 ''Document not found''))) \<and>
     (\<forall>detail. error_kind_of (HTTPException 404 detail) = NotFound)"
proof -
  have tasks: "get_db (get_task (t_id task) o1_user) db = (db, Inl (HTTPException 404 ''Task not found'')) \<and>
        get_db (update_task (t_id task) task_request o1_user db_now) db
          = (db, Inl (HTTPException 404 ''Task not found'')) \<and>
        get_db (delete_task (t_id task) o1_user db_now) db = (db, Inl (HTTPException 404 ''Task not found''))"
    if "task \<in> set (tasks db)" and "t_organization_id task = o2" for task
  proof -
    have s: "select_task (t_id task) o1_user db = Inr None"
      using assms that by (simp add: select_task_other_tenant)
    show ?thesis
      by (simp add: get_db_def get_task_def update_task_def delete_task_def s)
  qed
  have controls: "get_db (get_control (oc_id control) o1_user) db
          = (db, Inl (HTTPException 404 ''Control not found'')) \<and>
        get_db (update_control (oc_id control) control_request o1_user db_now) db
          = (db, Inl (HTTPException 404 ''Control not found''))"
    if "control \<in> set (organization_controls db)" and "oc_organization_id control = o2" for control
  proof -
    have s: "select_control (oc_id control) o1_user db = Inr None"
      using assms that by (simp add: select_control_other_tenant)
    show ?thesis
      by (simp add: get_db_def get_control_def update_control_def s)
  qed
  have documents: "get_db (get_document (d_id document) o1_user) db
          = (db, Inl (HTTPException 404 ''Document not found'')) \<and>
        get_db (update_document (d_id document) document_request o1_user db_now) db
          = (db, Inl (HTTPException 404 ''Document not found'')) \<and>
        delete_document_request (d_id document) o1_user fault (db, bucket)
          = ((db, bucket), Inl (HTTPException 404 ''Document not found''))"
    if "document \<in> set (documents db)" and "d_organization_id document = o2" for document
  proof -
    have s: "select_document (d_id document) o1_user db = Inr None"
      using assms that by (simp add: select_document_other_tenant)
    show ?thesis
      by (simp add: get_db_def get_document_def update_document_def delete_document_request_def
          delete_document_def s)
  qed
  from tasks controls documents show ?thesis by (simp add: not_found_kind)
qed

text \<open>Beta's admin addresses Acme's task \<open>t1\<close>.\<close>

lemma example_db_primary_keys: "primary_keys example_db"
  by (simp add: primary_keys_def example_db_def example_task_def example_control_def
      example_document_def example_user_def example_organization_def example_catalog_def)

theorem cross_tenant_not_found_witness:
  "primary_keys example_db \<and> cu_organization_id beta_admin \<noteq> ''acme'' \<and>
   example_task ''t1'' ''acme'' TODO HIGH (Some (naive_datetime 738886 9)) \<in> set (tasks example_db) \<and>
   get_db (get_task ''t1'' beta_admin) example_db
     = (example_db, Inl (HTTPException 404 ''Task not found'')) \<and>
   get_db (delete_task ''t1'' beta_admin (naive_datetime 738886 12)) example_db
     = (example_db, Inl (HTTPException 404 ''Task not found'')) \<and>
   error_kind_of (HTTPException 404 ''Task not found'') = NotFound"
proof -
  have o: "cu_organization_id beta_admin \<noteq> ''acme''" by (simp add: beta_admin_def)
  have m: "example_task ''t1'' ''acme'' TODO HIGH (Some (naive_datetime 738886 9)) \<in> set (tasks example_db)"
    by (simp add: example_db_def)
  have i: "t_id (example_task ''t1'' ''acme'' TODO HIGH (Some (naive_datetime 738886 9))) = ''t1''"
    "t_organization_id (example_task ''t1'' ''acme'' TODO HIGH (Some (naive_datetime 738886 9))) = ''acme''"
    by (simp_all add: example_task_def)
  note claim = cross_tenant_not_found[OF example_db_primary_keys o]
  from claim[THEN conjunct1, THEN bspec, OF m] i
  have "get_db (get_task ''t1'' beta_admin) example_db
     = (example_db, Inl (HTTPException 404 ''Task not found'')) \<and>
   get_db (delete_task ''t1'' beta_admin (naive_datetime 738886 12)) example_db
     = (example_db, Inl (HTTPException 404 ''Task not found''))"
    by simp
  moreover have "error_kind_of (HTTPException 404 ''Task not found'') = NotFound"
    using claim by blast
  ultimately show ?thesis using example_db_primary_keys o m by blast
qed

section \<open>The overdue count of list_tasks\<close>

lemma naive_due_db_query: "list_tasks_query example_ilike None None None None False None ''acme'' (utc_datetime 738886 12) naive_due_db
   = [example_task ''t1'' ''acme'' TODO HIGH (Some (naive_datetime 738885 9))]"
  by (simp add: list_tasks_query_def naive_due_db_def example_task_def when_given_def)

lemma acme_org: "cu_organization_id acme_admin = ''acme''"
  by (simp add: acme_admin_def)

lemma naive_due_db_not_aware: "\<not> due_dates_aware (list_tasks_query example_ilike None None None None False None
          (cu_organization_id acme_admin) (utc_datetime 738886 12) naive_due_db)"
  unfolding acme_org naive_due_db_query
  by (simp add: due_dates_aware_def example_task_def naive_datetime_def)

lemma noon_aware: "tzinfo (utc_datetime 738886 12) \<noteq> None" by (simp add: utc_datetime_def)

text \<open>
  Claim C3 at a store the configured backends produce: Acme has one open task, due
  2023-12-31 09:00, and the value read back from the \<open>DateTime\<close> column has no zone.
  Python refuses to compare it with the zone-aware \<open>now\<close>, so \<open>list_tasks\<close> without
  any filter raises \<open>TypeError\<close> and returns no aggregates, where the claim has
  \<open>overdue_count = 1\<close> and both sums equal to \<open>total = 1\<close>.  (A response that is
  returned does satisfy the identities: \<open>list_tasks_aggregates\<close> and
  \<open>list_tasks_per_key\<close> above; that is every response where no returned task has a due
  date.  \<open>list_controls\<close> satisfies them unless \<open>category\<close> and \<open>search\<close> are both
  given, where its query raises: \<open>list_controls_aggregates\<close>,
  \<open>list_controls_double_join\<close>.)
\<close>

theorem list_tasks_naive_due_date_raises:
  "list_tasks example_ilike None None None None False None acme_admin (utc_datetime 738886 12) naive_due_db
     = (naive_due_db, Inl TypeError)"
  using noon_aware naive_due_db_not_aware by (rule list_tasks_raises)

section \<open>The two notions of overdue\<close>

lemma example_db_query:
  "list_tasks_query example_ilike None None None None False None ''acme'' (utc_datetime 738886 12) example_db
   = [example_task ''t1'' ''acme'' TODO HIGH (Some (naive_datetime 738886 9)),
      example_task ''t2'' ''acme'' DONE LOW None]"
  by (simp add: list_tasks_query_def example_db_def example_task_def when_given_def due_date_key_def)

lemma example_db_not_aware:
  "\<not> due_dates_aware (list_tasks_query example_ilike None None None None False None
          (cu_organization_id acme_admin) (utc_datetime 738886 12) example_db)"
  unfolding acme_org example_db_query
  by (simp add: due_dates_aware_def example_task_def naive_datetime_def)

lemma same_day_task:
  "t_status (example_task ''t1'' ''acme'' TODO HIGH (Some (naive_datetime 738886 9))) \<noteq> DONE"
  "t_due_date (example_task ''t1'' ''acme'' TODO HIGH (Some (naive_datetime 738886 9)))
     = Some (naive_datetime 738886 9)"
  by (simp_all add: example_task_def)

lemma same_day_earlier:
  "utc_day (naive_datetime 738886 9) = utc_day (utc_datetime 738886 12)"
  "utc_us (naive_datetime 738886 9) < utc_us (utc_datetime 738886 12)"
  by (simp_all add: utc_day_def utc_us_def wall_us_def us_per_day_def naive_datetime_def
      utc_datetime_def)

lemma same_day_listed:
  "example_task ''t1'' ''acme'' TODO HIGH (Some (naive_datetime 738886 9))
     \<in> set (list_tasks_query example_ilike None None None None False None
              (cu_organization_id acme_admin) (utc_datetime 738886 12) example_db)"
  unfolding acme_org example_db_query by simp

lemma same_day_raises:
  "list_tasks example_ilike None None None None False None acme_admin (utc_datetime 738886 12)
     example_db = (example_db, Inl TypeError)"
  using noon_aware example_db_not_aware by (rule list_tasks_raises)

lemma same_day_dday:
  "calculate_dday (utc_datetime 738886 12) (Some (naive_datetime 738886 9))
     = Inr (Some ''D-Day'', False)"
  by (simp add: calculate_dday_unzoned utc_datetime_def naive_datetime_def)

text \<open>
  Claim C10 at a task the store really holds: Acme's task \<open>t1\<close> is open and due
  2024-01-01 09:00, read back without a zone; now is 2024-01-01 12:00 UTC, the same UTC
  calendar day and later.  \<open>calculate_dday\<close> returns \<open>D-Day\<close> with
  \<open>is_overdue = False\<close>, as the claim has it.  \<open>list_tasks\<close> does not count the task in
  \<open>overdue_count\<close>: its loop compares the zone-less due date with the zone-aware
  \<open>now\<close>, which raises \<open>TypeError\<close>, and the request returns nothing.  This is the
  defect of claim C3.
\<close>

theorem same_day_past_due_list_tasks_raises:
  "t_status (example_task ''t1'' ''acme'' TODO HIGH (Some (naive_datetime 738886 9))) \<noteq> DONE \<and>
   t_due_date (example_task ''t1'' ''acme'' TODO HIGH (Some (naive_datetime 738886 9)))
     = Some (naive_datetime 738886 9) \<and>
   utc_day (naive_datetime 738886 9) = utc_day (utc_datetime 738886 12) \<and>
   utc_us (naive_datetime 738886 9) < utc_us (utc_datetime 738886 12) \<and>
   example_task ''t1'' ''acme'' TODO HIGH (Some (naive_datetime 738886 9))
     \<in> set (list_tasks_query example_ilike None None None None False None
              (cu_organization_id acme_admin) (utc_datetime 738886 12) example_db) \<and>
   list_tasks example_ilike None None None None False None acme_admin (utc_datetime 738886 12)
     example_db = (example_db, Inl TypeError) \<and>
   calculate_dday (utc_datetime 738886 12) (Some (naive_datetime 738886 9))
     = Inr (Some ''D-Day'', False)"
  using same_day_task same_day_earlier same_day_listed same_day_raises same_day_dday
  by (intro conjI)

section \<open>Partial updates\<close>

lemma primary_key_same_tenant:
  assumes "distinct (map key rows)" and "row \<in> set rows" and "owner row = org"
  shows "filter (\<lambda>r. key r = key row \<and> owner r = org) rows = [row]"
proof -
  have eq: "key r = key row \<longleftrightarrow> r = row" if "r \<in> set rows" for r
    using assms(1,2) that by (meson distinct_map inj_onD)
  have "filter (\<lambda>r. key r = key row \<and> owner r = org) rows = filter (\<lambda>r. r = row) rows"
    using eq assms(3) by (intro filter_cong) auto
  also have "\<dots> = [row]"
    using assms(1,2)
  proof (induction rows)
    case Nil
    then show ?case by simp
  next
    case (Cons a rows)
    show ?case
    proof (cases "a = row")
      case True
      then have "row \<notin> set rows" using Cons.prems(1) by (auto simp: image_iff)
      then have "filter (\<lambda>r. r = row) rows = []" by (auto simp: filter_empty_conv)
      then show ?thesis using True by simp
    next
      case False
      then show ?thesis using Cons by simp
    qed
  qed
  finally show ?thesis .
qed


lemma set_required_updated:
  assumes "field \<noteq> Some None"
  shows "\<exists>v. set_required field old = Some v \<and> field_updated field (Some old) (Some v)"
  using assms by (cases field) (auto simp: set_required_def field_updated_def)

lemma set_nullable_updated: "field_updated field old (set_nullable field old)"
  by (cases field) (simp_all add: set_nullable_def field_updated_def)

lemma select_task_same_tenant:
  assumes "primary_keys db" and "task \<in> set (tasks db)"
    and "t_organization_id task = cu_organization_id current_user"
  shows "select_task (t_id task) current_user db = Inr (Some task)"
proof -
  have "distinct (map t_id (tasks db))" using assms(1) by (simp add: primary_keys_def)
  from primary_key_same_tenant[OF this assms(2), of t_organization_id, OF assms(3)]
  show ?thesis by (simp add: select_task_def scalar_one_or_none_def)
qed

lemma select_control_same_tenant:
  assumes "primary_keys db" and "control \<in> set (organization_controls db)"
    and "oc_organization_id control = cu_organization_id current_user"
  shows "select_control (oc_id control) current_user db = Inr (Some control)"
proof -
  have "distinct (map oc_id (organization_controls db))" using assms(1) by (simp add: primary_keys_def)
  from primary_key_same_tenant[OF this assms(2), of oc_organization_id, OF assms(3)]
  show ?thesis by (simp add: select_control_def scalar_one_or_none_def)
qed

lemma select_document_same_tenant:
  assumes "primary_keys db" and "document \<in> set (documents db)"
    and "d_organization_id document = cu_organization_id current_user"
  shows "select_document (d_id document) current_user db = Inr (Some document)"
proof -
  have "distinct (map d_id (documents db))" using assms(1) by (simp add: primary_keys_def)
  from primary_key_same_tenant[OF this assms(2), of d_organization_id, OF assms(3)]
  show ?thesis by (simp add: select_document_def scalar_one_or_none_def)
qed

lemma get_db_response_raise:
  "handler db = (session, Inl e) \<Longrightarrow> get_db (response_model schema handler) db = (db, Inl e)"
  by (simp add: get_db_def response_model_def)

lemma get_db_response_return:
  "handler db = (session, Inr obj) \<Longrightarrow>
   get_db (response_model schema handler) db =
     (case schema obj of Inl e \<Rightarrow> (db, Inl e) | Inr r \<Rightarrow> (session, Inr r))"
  by (simp add: get_db_def response_model_def split: sum.splits)




text \<open>
  \<open>update_task\<close> and \<open>update_control\<close> return the flushed object without reloading
  it.  A request that changes any column ends in \<open>MissingGreenlet\<close> when the response
  schema reads \<open>updated_at\<close>, inside the scope of \<open>get_db\<close>, and the update is rolled
  back; a request that changes nothing returns the record.
\<close>

lemma patch_task_outcome:
  assumes "primary_keys db" and "task \<in> set (tasks db)"
    and "t_organization_id task = cu_organization_id current_user"
    and "\<not> nulls_required_task request"
  shows "patch_task (t_id task) request current_user db_now db =
           (if task_updated request task task then (db, Inr task) else (db, Inl MissingGreenlet))"
proof -
  have sel: "select_task (t_id task) current_user db = Inr (Some task)"
    using assms(1,2,3) by (rule select_task_same_tenant)
  obtain title where title: "set_required (tu_title request) (t_title task) = Some title"
      "field_updated (tu_title request) (Some (t_title task)) (Some title)"
    using set_required_updated[of "tu_title request"] assms(4) by (auto simp: nulls_required_task_def)
  obtain status where status: "set_required (tu_status request) (t_status task) = Some status"
      "field_updated (tu_status request) (Some (t_status task)) (Some status)"
    using set_required_updated[of "tu_status request"] assms(4) by (auto simp: nulls_required_task_def)
  obtain priority where priority: "set_required (tu_priority request) (t_priority task) = Some priority"
      "field_updated (tu_priority request) (Some (t_priority task)) (Some priority)"
    using set_required_updated[of "tu_priority request"] assms(4) by (auto simp: nulls_required_task_def)
  define new where "new = task
                      \<lparr>t_title := title,
                       t_description := set_nullable (tu_description request) (t_description task),
                       t_status := status,
                       t_priority := priority,
                       t_due_date := set_nullable (tu_due_date request) (t_due_date task),
                       t_control_id := set_nullable (tu_control_id request) (t_control_id task),
                       t_assignee_id := set_nullable (tu_assignee_id request) (t_assignee_id task),
                       t_recurring_rule :=
                         set_nullable (tu_recurring_rule request) (t_recurring_rule task)\<rparr>"
  have upd: "task_updated request task new"
    using title(2) status(2) priority(2)
    by (simp add: task_updated_def new_def set_nullable_updated)
  have same: "task_updated request task task \<longleftrightarrow> new = task"
  proof
    assume u: "task_updated request task task"
    have t: "title = t_title task" using u title(2)
      by (cases "tu_title request") (auto simp: task_updated_def field_updated_def)
    have s: "status = t_status task" using u status(2)
      by (cases "tu_status request") (auto simp: task_updated_def field_updated_def)
    have p: "priority = t_priority task" using u priority(2)
      by (cases "tu_priority request") (auto simp: task_updated_def field_updated_def)
    have n: "set_nullable (tu_description request) (t_description task) = t_description task"
      "set_nullable (tu_due_date request) (t_due_date task) = t_due_date task"
      "set_nullable (tu_control_id request) (t_control_id task) = t_control_id task"
      "set_nullable (tu_assignee_id request) (t_assignee_id task) = t_assignee_id task"
      "set_nullable (tu_recurring_rule request) (t_recurring_rule task) = t_recurring_rule task"
      using u by (auto simp: task_updated_def field_updated_def set_nullable_def split: option.splits)
    show "new = task" unfolding new_def t s p n by simp
  next
    assume "new = task"
    with upd show "task_updated request task task" by simp
  qed
  show ?thesis
  proof (cases "new = task")
    case True
    have run: "update_task (t_id task) request current_user db_now db
                 = (db, Inr \<lparr>attrs = task, updated_at_expired = False\<rparr>)"
      using True by (simp add: update_task_def sel title(1) status(1) priority(1) Let_def new_def)
    show ?thesis
      unfolding patch_task_def get_db_response_return[of "update_task (t_id task) request current_user db_now" db, OF run] using True same
      by (simp add: reads_updated_at_def)
  next
    case False
    obtain session where run: "update_task (t_id task) request current_user db_now db
                 = (session, Inr \<lparr>attrs = new, updated_at_expired = True\<rparr>)"
      using False by (simp add: update_task_def sel title(1) status(1) priority(1) Let_def new_def)
    show ?thesis
      unfolding patch_task_def get_db_response_return[of "update_task (t_id task) request current_user db_now" db, OF run] using False same
      by (simp add: reads_updated_at_def)
  qed
qed

lemma patch_control_outcome:
  assumes "primary_keys db" and "control \<in> set (organization_controls db)"
    and "oc_organization_id control = cu_organization_id current_user"
    and "\<not> nulls_required_control request"
  shows "patch_control (oc_id control) request current_user db_now db =
           (if control_updated request control control then (db, Inr control)
            else (db, Inl MissingGreenlet))"
proof -
  have sel: "select_control (oc_id control) current_user db = Inr (Some control)"
    using assms(1,2,3) by (rule select_control_same_tenant)
  obtain status where status: "set_required (ocu_status request) (oc_status control) = Some status"
      "field_updated (ocu_status request) (Some (oc_status control)) (Some status)"
    using set_required_updated[of "ocu_status request"] assms(4)
    by (auto simp: nulls_required_control_def)
  obtain applicable where applicable:
      "set_required (ocu_is_applicable request) (oc_is_applicable control) = Some applicable"
      "field_updated (ocu_is_applicable request) (Some (oc_is_applicable control)) (Some applicable)"
    using set_required_updated[of "ocu_is_applicable request"] assms(4)
    by (auto simp: nulls_required_control_def)
  define new where "new = control
                      \<lparr>oc_status := status,
                       oc_is_applicable := applicable,
                       oc_notes := set_nullable (ocu_notes request) (oc_notes control)\<rparr>"
  have upd: "control_updated request control new"
    using status(2) applicable(2)
    by (simp add: control_updated_def new_def set_nullable_updated)
  have same: "control_updated request control control \<longleftrightarrow> new = control"
  proof
    assume u: "control_updated request control control"
    have s: "status = oc_status control" using u status(2)
      by (cases "ocu_status request") (auto simp: control_updated_def field_updated_def)
    have a: "applicable = oc_is_applicable control" using u applicable(2)
      by (cases "ocu_is_applicable request") (auto simp: control_updated_def field_updated_def)
    have n: "set_nullable (ocu_notes request) (oc_notes control) = oc_notes control"
      using u by (auto simp: control_updated_def field_updated_def set_nullable_def split: option.splits)
    show "new = control" unfolding new_def s a n by simp
  next
    assume "new = control"
    with upd show "control_updated request control control" by simp
  qed
  show ?thesis
  proof (cases "new = control")
    case True
    have run: "update_control (oc_id control) request current_user db_now db
                 = (db, Inr \<lparr>attrs = control, updated_at_expired = False\<rparr>)"
      using True by (simp add: update_control_def sel status(1) applicable(1) Let_def new_def)
    show ?thesis
      unfolding patch_control_def get_db_response_return[of "update_control (oc_id control) request current_user db_now" db, OF run] using True same
      by (simp add: reads_updated_at_def)
  next
    case False
    obtain session where run: "update_control (oc_id control) request current_user db_now db
                 = (session, Inr \<lparr>attrs = new, updated_at_expired = True\<rparr>)"
      using False by (simp add: update_control_def sel status(1) applicable(1) Let_def new_def)
    show ?thesis
      unfolding patch_control_def get_db_response_return[of "update_control (oc_id control) request current_user db_now" db, OF run] using False same
      by (simp add: reads_updated_at_def)
  qed
qed


lemma example_members:
  "example_task ''t1'' ''acme'' TODO HIGH (Some (naive_datetime 738886 9)) \<in> set (tasks example_db)"
  "example_control ''oc1'' ''acme'' COMPLETED (example_catalog ''A.6.1'' ''A.6'')
     \<in> set (organization_controls example_db)"
  "example_document ''d1'' ''acme'' (Some (naive_datetime 738900 0)) \<in> set (documents example_db)"
  by (simp_all add: example_db_def)



lemma column_value_naive: "column_value (naive_datetime day h) = naive_datetime day h"
  by (simp add: column_value_def naive_datetime_def)



text \<open>
  The same claim on a task: Acme's admin marks task \<open>t1\<close> done.  The handler flushes
  the change and returns the object; the response schema reads the expired
  \<open>updated_at\<close>, the request raises and the change is rolled back.
\<close>

lemma patch_task_mark_done_raises:
  "patch_task ''t1'' mark_done acme_admin (naive_datetime 738886 12) example_db
     = (example_db, Inl MissingGreenlet)"
proof -
  let ?task = "example_task ''t1'' ''acme'' TODO HIGH (Some (naive_datetime 738886 9))"
  have o: "t_organization_id ?task = cu_organization_id acme_admin"
    by (simp add: example_task_def acme_org)
  have n: "\<not> nulls_required_task mark_done"
    by (simp add: nulls_required_task_def mark_done_def)
  have c: "\<not> task_updated mark_done ?task ?task"
    by (simp add: task_updated_def field_updated_def mark_done_def example_task_def)
  have i: "t_id ?task = ''t1''" by (simp add: example_task_def)
  from patch_task_outcome[OF example_db_primary_keys example_members(1) o n] c
  show ?thesis unfolding i by simp
qed

section \<open>Deleting a document\<close>

lemma delete_file_cases:
  "delete_file fault file_key bucket =
     (case fault file_key of
        None \<Rightarrow> (bucket - {file_key}, Inr True)
      | Some ClientError \<Rightarrow> (bucket, Inr False)
      | Some e \<Rightarrow> (bucket, Inl e))"
  by (simp add: delete_file_def delete_object_def split: option.splits error.splits)

lemma delete_document_deletes:
  assumes "primary_keys db" and "document \<in> set (documents db)"
    and "d_organization_id document = cu_organization_id current_user"
    and "fault (d_file_key document) = None"
  shows "delete_document_request (d_id document) current_user fault (db, bucket)
       = ((db\<lparr>documents := filter (\<lambda>d. d \<noteq> document) (documents db)\<rparr>,
           bucket - {d_file_key document}),
          Inr ''Document deleted successfully'')"
proof -
  have pk: "distinct (map d_id (documents db))" using assms(1) by (simp add: primary_keys_def)
  have "d_id d \<noteq> d_id document \<longleftrightarrow> d \<noteq> document" if "d \<in> set (documents db)" for d
    using pk assms(2) that by (meson distinct_map inj_onD)
  then have f: "filter (\<lambda>d. d_id d \<noteq> d_id document) (documents db)
              = filter (\<lambda>d. d \<noteq> document) (documents db)"
    by (intro filter_cong) auto
  have sel: "select_document (d_id document) current_user db = Inr (Some document)"
    using assms(1,2,3) by (rule select_document_same_tenant)
  show ?thesis
    by (simp add: delete_document_request_def delete_document_def sel delete_file_cases assms(4) f)
qed

lemma delete_document_client_error:
  assumes "primary_keys db" and "document \<in> set (documents db)"
    and "d_organization_id document = cu_organization_id current_user"
    and "fault (d_file_key document) = Some ClientError"
  shows "delete_document_request (d_id document) current_user fault (db, bucket)
       = ((db\<lparr>documents := filter (\<lambda>d. d \<noteq> document) (documents db)\<rparr>, bucket),
          Inr ''Document deleted successfully'')"
proof -
  have pk: "distinct (map d_id (documents db))" using assms(1) by (simp add: primary_keys_def)
  have "d_id d \<noteq> d_id document \<longleftrightarrow> d \<noteq> document" if "d \<in> set (documents db)" for d
    using pk assms(2) that by (meson distinct_map inj_onD)
  then have f: "filter (\<lambda>d. d_id d \<noteq> d_id document) (documents db)
              = filter (\<lambda>d. d \<noteq> document) (documents db)"
    by (intro filter_cong) auto
  have sel: "select_document (d_id document) current_user db = Inr (Some document)"
    using assms(1,2,3) by (rule select_document_same_tenant)
  show ?thesis
    by (simp add: delete_document_request_def delete_document_def sel delete_file_cases assms(4) f)
qed

lemma delete_document_other_error:
  assumes "primary_keys db" and "document \<in> set (documents db)"
    and "d_organization_id document = cu_organization_id current_user"
    and "fault (d_file_key document) = Some e" and "e \<noteq> ClientError"
  shows "delete_document_request (d_id document) current_user fault (db, bucket)
       = ((db, bucket), Inl e)"
proof -
  have sel: "select_document (d_id document) current_user db = Inr (Some document)"
    using assms(1,2,3) by (rule select_document_same_tenant)
  from assms(5) show ?thesis
    by (cases e)
       (simp_all add: delete_document_request_def delete_document_def sel delete_file_cases assms(4))
qed

text \<open>
  Claim C6 at a failing blob deletion: Acme's admin deletes document \<open>d1\<close> while the
  blob store answers \<open>delete_object\<close> with a \<open>ClientError\<close>.  \<open>delete_file\<close>
  catches it and returns \<open>False\<close>, \<open>delete_document\<close> does not read that value:
  the request succeeds, the row is gone and the blob is still in the bucket, where the
  claim has the request fail or the row remain.  (The order is as the claim has it, blob
  first and then the row: \<open>delete_document_deletes\<close>; and any other exception of the
  blob store does abort the request with the row kept:
  \<open>delete_document_other_error\<close>.)
\<close>

theorem delete_document_ignores_failed_blob_deletion:
  "delete_document_request ''d1'' acme_admin (\<lambda>file_key. Some ClientError)
     (example_db, {''acme/documents/d1'', ''beta/documents/d2''})
   = ((example_db\<lparr>documents := [example_document ''d2'' ''beta'' None]\<rparr>,
       {''acme/documents/d1'', ''beta/documents/d2''}),
      Inr ''Document deleted successfully'')"
proof -
  let ?document = "example_document ''d1'' ''acme'' (Some (naive_datetime 738900 0))"
  have o: "d_organization_id ?document = cu_organization_id acme_admin"
    by (simp add: example_document_def acme_org)
  have i: "d_id ?document = ''d1''" by (simp add: example_document_def)
  have r: "filter (\<lambda>d. d \<noteq> ?document) (documents example_db) = [example_document ''d2'' ''beta'' None]"
    by (simp add: example_db_def example_document_def)
  from delete_document_client_error[OF example_db_primary_keys example_members(3) o,
      of "\<lambda>file_key. Some ClientError"]
  show ?thesis unfolding i r by simp
qed

section \<open>Registration: conflict and atomicity\<close>

lemma existing_email_found:
  assumes "unique_emails db" and "user \<in> set (users db)" and "u_email user = email"
  shows "scalar_one_or_none (filter (\<lambda>u. u_email u = email) (users db)) = Inr (Some user)"
proof -
  have "distinct (map u_email (users db))" using assms(1) by (simp add: unique_emails_def)
  from primary_key_same_tenant[OF this assms(2), of "\<lambda>u. ()" "()"] assms(3)
  show ?thesis by (simp add: scalar_one_or_none_def)
qed

lemma conflict_kind: "error_kind_of (HTTPException 400 detail) = Conflict"
  by (simp add: error_kind_of_def)

text \<open>
  Claim C9.  For every registration request whose e-mail belongs to an existing user, of
  any organization, \<open>register\<close> raises the 400 \<open>HTTPException\<close> "Email already
  registered", the kind the specification names \<open>Conflict\<close>; it is raised by the first
  statement of the handler, with the session still equal to the store, and after the
  request the store is the one before it: no organization or user row is persisted.
\<close>

theorem register_duplicate_email_conflict:
  assumes "unique_emails db" and "user \<in> set (users db)" and "u_email user = rr_email request"
  shows "register sec request org_uuid user_uuid db_now db
           = (db, Inl (HTTPException 400 ''Email already registered'')) \<and>
         get_db (register sec request org_uuid user_uuid db_now) db
           = (db, Inl (HTTPException 400 ''Email already registered'')) \<and>
         error_kind_of (HTTPException 400 ''Email already registered'') = Conflict"
proof -
  have "register sec request org_uuid user_uuid db_now db
           = (db, Inl (HTTPException 400 ''Email already registered''))"
    by (simp add: register_def existing_email_found[OF assms])
  then show ?thesis by (simp add: get_db_raise conflict_kind)
qed

text \<open>A second registration with the e-mail of Acme's admin.\<close>

theorem register_duplicate_email_conflict_witness:
  "unique_emails example_db \<and>
   example_user ''u-acme'' ''acme'' ''a@acme.com'' \<in> set (users example_db) \<and>
   get_db (register example_security
      \<lparr>rr_email = ''a@acme.com'', rr_name = None, rr_password = ''pw'',
       rr_organization_name = ''Gamma''\<rparr> ''gamma'' ''u-gamma'' (utc_datetime 738886 12)) example_db
     = (example_db, Inl (HTTPException 400 ''Email already registered'')) \<and>
   error_kind_of (HTTPException 400 ''Email already registered'') = Conflict"
proof -
  let ?request = "\<lparr>rr_email = ''a@acme.com'', rr_name = None, rr_password = ''pw'',
       rr_organization_name = ''Gamma''\<rparr>"
  have u: "unique_emails example_db"
    by (simp add: unique_emails_def example_db_def example_user_def)
  have m: "example_user ''u-acme'' ''acme'' ''a@acme.com'' \<in> set (users example_db)"
    by (simp add: example_db_def)
  have e: "u_email (example_user ''u-acme'' ''acme'' ''a@acme.com'') = rr_email ?request"
    by (simp add: example_user_def)
  note claim = register_duplicate_email_conflict[OF u m e,
      of example_security "''gamma''" "''u-gamma''" "utc_datetime 738886 12"]
  from u m claim[THEN conjunct2] show ?thesis by (intro conjI) simp_all
qed

lemma attribute_value_str: "attribute_value (PyStr s) = Inl AttributeError"
  by (simp add: attribute_value_def)

lemma register_raises:
  "\<exists>session e. register sec request org_uuid user_uuid db_now db = (session, Inl e)"
  by (simp add: register_def Let_def attribute_value_str split: sum.splits option.splits)

lemma register_flushes:
  assumes "filter (\<lambda>u. u_email u = rr_email request) (users db) = []"
    and "org_uuid \<notin> set (map o_id (organizations db))"
    and "user_uuid \<notin> set (map u_id (users db))"
  shows "register sec request org_uuid user_uuid db_now db =
      (case get_password_hash sec (rr_password request) of
         Inl e \<Rightarrow>
           (db\<lparr>organizations := organizations db @
                  [\<lparr>o_id = org_uuid, o_name = rr_organization_name request,
                    o_profile_type = STARTUP, o_created_at = column_value db_now,
                    o_updated_at = column_value db_now\<rparr>]\<rparr>,
            Inl e)
       | Inr password_hash \<Rightarrow>
           (db\<lparr>organizations := organizations db @
                  [\<lparr>o_id = org_uuid, o_name = rr_organization_name request,
                    o_profile_type = STARTUP, o_created_at = column_value db_now,
                    o_updated_at = column_value db_now\<rparr>],
                users := users db @
                  [\<lparr>u_id = user_uuid, u_email = rr_email request, u_name = rr_name request,
                    u_password_hash = password_hash, u_role = ADMIN,
                    u_organization_id = org_uuid, u_created_at = column_value db_now,
                    u_updated_at = column_value db_now\<rparr>]\<rparr>,
            Inl AttributeError))"
proof -
  have e: "rr_email request \<notin> set (map u_email (users db))"
    using assms(1) by (auto simp: filter_empty_conv)
  show ?thesis
    using assms(2,3) e
    by (simp add: register_def assms(1) scalar_one_or_none_def Let_def insert_organization_def
        insert_user_def attribute_value_str split: sum.splits)
qed

text \<open>
  Claim C5.  Registration is atomic.  For every request the store after it is the store
  before it: \<open>register\<close> never returns (the last thing it can do is raise on
  \<open>user.role.value\<close>), and \<open>get_db\<close> rolls back what a handler that raises has
  flushed, while it commits what a handler that returns has flushed.  When no user has
  the e-mail and the two new ids are free, the handler inserts the organization in the
  session and then hashes the password; if that fails, the session at the raise holds the
  new organization and nothing else, and otherwise it holds the new organization and its
  admin user, and the handler raises \<open>AttributeError\<close>.  In both cases no organization
  row and no user row persists.
\<close>

theorem register_atomic:
  "(\<exists>e. get_db (register sec request org_uuid user_uuid db_now) db = (db, Inl e)) \<and>
   (\<forall>handler session response.
      handler db = (session, Inr (response :: TokenResponse)) \<longrightarrow>
      get_db handler db = (session, Inr response)) \<and>
   (\<forall>handler session e.
      (handler :: TokenResponse handler) db = (session, Inl e) \<longrightarrow>
      get_db handler db = (db, Inl e)) \<and>
   (filter (\<lambda>u. u_email u = rr_email request) (users db) = [] \<and>
    org_uuid \<notin> set (map o_id (organizations db)) \<and>
    user_uuid \<notin> set (map u_id (users db)) \<longrightarrow>
    register sec request org_uuid user_uuid db_now db =
      (case get_password_hash sec (rr_password request) of
         Inl e \<Rightarrow>
           (db\<lparr>organizations := organizations db @
                  [\<lparr>o_id = org_uuid, o_name = rr_organization_name request,
                    o_profile_type = STARTUP, o_created_at = column_value db_now,
                    o_updated_at = column_value db_now\<rparr>]\<rparr>,
            Inl e)
       | Inr password_hash \<Rightarrow>
           (db\<lparr>organizations := organizations db @
                  [\<lparr>o_id = org_uuid, o_name = rr_organization_name request,
                    o_profile_type = STARTUP, o_created_at = column_value db_now,
                    o_updated_at = column_value db_now\<rparr>],
                users := users db @
                  [\<lparr>u_id = user_uuid, u_email = rr_email request, u_name = rr_name request,
                    u_password_hash = password_hash, u_role = ADMIN,
                    u_organization_id = org_uuid, u_created_at = column_value db_now,
                    u_updated_at = column_value db_now\<rparr>]\<rparr>,
            Inl AttributeError)))"
proof -
  obtain session e where "register sec request org_uuid user_uuid db_now db = (session, Inl e)"
    using register_raises by blast
  then have "get_db (register sec request org_uuid user_uuid db_now) db = (db, Inl e)"
    by (rule get_db_raise)
  then have 1: "\<exists>e. get_db (register sec request org_uuid user_uuid db_now) db = (db, Inl e)" ..
  have 2: "\<forall>handler session response.
      handler db = (session, Inr (response :: TokenResponse)) \<longrightarrow>
      get_db handler db = (session, Inr response)"
    by (simp add: get_db_def)
  have 3: "\<forall>handler session e.
      (handler :: TokenResponse handler) db = (session, Inl e) \<longrightarrow>
      get_db handler db = (db, Inl e)"
    by (simp add: get_db_def)
  have 4: "filter (\<lambda>u. u_email u = rr_email request) (users db) = [] \<and>
    org_uuid \<notin> set (map o_id (organizations db)) \<and>
    user_uuid \<notin> set (map u_id (users db)) \<longrightarrow>
    register sec request org_uuid user_uuid db_now db =
      (case get_password_hash sec (rr_password request) of
         Inl e \<Rightarrow>
           (db\<lparr>organizations := organizations db @
                  [\<lparr>o_id = org_uuid, o_name = rr_organization_name request,
                    o_profile_type = STARTUP, o_created_at = column_value db_now,
                    o_updated_at = column_value db_now\<rparr>]\<rparr>,
            Inl e)
       | Inr password_hash \<Rightarrow>
           (db\<lparr>organizations := organizations db @
                  [\<lparr>o_id = org_uuid, o_name = rr_organization_name request,
                    o_profile_type = STARTUP, o_created_at = column_value db_now,
                    o_updated_at = column_value db_now\<rparr>],
                users := users db @
                  [\<lparr>u_id = user_uuid, u_email = rr_email request, u_name = rr_name request,
                    u_password_hash = password_hash, u_role = ADMIN,
                    u_organization_id = org_uuid, u_created_at = column_value db_now,
                    u_updated_at = column_value db_now\<rparr>]\<rparr>,
            Inl AttributeError))"
  proof (intro impI, elim conjE)
    assume "filter (\<lambda>u. u_email u = rr_email request) (users db) = []"
      and "org_uuid \<notin> set (map o_id (organizations db))"
      and "user_uuid \<notin> set (map u_id (users db))"
    then show "register sec request org_uuid user_uuid db_now db =
      (case get_password_hash sec (rr_password request) of
         Inl e \<Rightarrow>
           (db\<lparr>organizations := organizations db @
                  [\<lparr>o_id = org_uuid, o_name = rr_organization_name request,
                    o_profile_type = STARTUP, o_created_at = column_value db_now,
                    o_updated_at = column_value db_now\<rparr>]\<rparr>,
            Inl e)
       | Inr password_hash \<Rightarrow>
           (db\<lparr>organizations := organizations db @
                  [\<lparr>o_id = org_uuid, o_name = rr_organization_name request,
                    o_profile_type = STARTUP, o_created_at = column_value db_now,
                    o_updated_at = column_value db_now\<rparr>],
                users := users db @
                  [\<lparr>u_id = user_uuid, u_email = rr_email request, u_name = rr_name request,
                    u_password_hash = password_hash, u_role = ADMIN,
                    u_organization_id = org_uuid, u_created_at = column_value db_now,
                    u_updated_at = column_value db_now\<rparr>]\<rparr>,
            Inl AttributeError))"
      by (rule register_flushes)
  qed
  from 1 2 3 4 show ?thesis by (intro conjI)
qed

lemma example_users_emails:
  "filter (\<lambda>u. u_email u = ''g@gamma.com'') (users example_db) = []"
  "''gamma'' \<notin> set (map o_id (organizations example_db))"
  "''u-gamma'' \<notin> set (map u_id (users example_db))"
  by (simp_all add: example_db_def example_user_def example_organization_def)

text \<open>
  Gamma registers with the store of the examples.  With the password \<open>"pw"\<close> both rows
  are flushed and \<open>user.role.value\<close> raises; with a password of 73 characters the
  hasher raises after the organization was flushed.  Either way the store after the
  request is the one before.  A handler that returns after it added an organization has
  it committed.
\<close>

theorem register_atomic_witness:
  "register example_security gamma_request ''gamma'' ''u-gamma'' (naive_datetime 738886 12) example_db
     = (example_db\<lparr>organizations := organizations example_db @
           [\<lparr>o_id = ''gamma'', o_name = ''Gamma'', o_profile_type = STARTUP,
             o_created_at = naive_datetime 738886 12, o_updated_at = naive_datetime 738886 12\<rparr>],
         users := users example_db @
           [\<lparr>u_id = ''u-gamma'', u_email = ''g@gamma.com'', u_name = Some ''G'',
             u_password_hash = ''hash:pw'', u_role = ADMIN, u_organization_id = ''gamma'',
             u_created_at = naive_datetime 738886 12, u_updated_at = naive_datetime 738886 12\<rparr>]\<rparr>,
        Inl AttributeError) \<and>
   get_db (register example_security gamma_request ''gamma'' ''u-gamma'' (naive_datetime 738886 12))
     example_db = (example_db, Inl AttributeError) \<and>
   register example_security long_password_request ''gamma'' ''u-gamma'' (naive_datetime 738886 12)
       example_db
     = (example_db\<lparr>organizations := organizations example_db @
           [\<lparr>o_id = ''gamma'', o_name = ''Gamma'', o_profile_type = STARTUP,
             o_created_at = naive_datetime 738886 12, o_updated_at = naive_datetime 738886 12\<rparr>]\<rparr>,
        Inl ValueError) \<and>
   get_db (register example_security long_password_request ''gamma'' ''u-gamma''
       (naive_datetime 738886 12)) example_db = (example_db, Inl ValueError) \<and>
   get_db returning_handler example_db
     = (example_db\<lparr>organizations := organizations example_db @ [example_organization ''delta'']\<rparr>,
        Inr \<lparr>access_token = ''a'', refresh_token = ''r''\<rparr>)"
proof -
  let ?now = "naive_datetime 738886 12"
  note gamma = register_atomic[where sec = example_security and request = gamma_request
      and org_uuid = "''gamma''" and user_uuid = "''u-gamma''" and db_now = ?now
      and db = example_db]
  note long = register_atomic[where sec = example_security and request = long_password_request
      and org_uuid = "''gamma''" and user_uuid = "''u-gamma''" and db_now = ?now
      and db = example_db]
  have g: "rr_email gamma_request = ''g@gamma.com''" "rr_name gamma_request = Some ''G''"
      "rr_organization_name gamma_request = ''Gamma''"
      "get_password_hash example_security (rr_password gamma_request) = Inr ''hash:pw''"
    by (simp_all add: gamma_request_def example_security_def)
  have l: "rr_email long_password_request = ''g@gamma.com''"
      "rr_organization_name long_password_request = ''Gamma''"
      "get_password_hash example_security (rr_password long_password_request) = Inl ValueError"
    by (simp_all add: long_password_request_def example_security_def)
  have 1: "register example_security gamma_request ''gamma'' ''u-gamma'' ?now example_db
     = (example_db\<lparr>organizations := organizations example_db @
           [\<lparr>o_id = ''gamma'', o_name = ''Gamma'', o_profile_type = STARTUP,
             o_created_at = ?now, o_updated_at = ?now\<rparr>],
         users := users example_db @
           [\<lparr>u_id = ''u-gamma'', u_email = ''g@gamma.com'', u_name = Some ''G'',
             u_password_hash = ''hash:pw'', u_role = ADMIN, u_organization_id = ''gamma'',
             u_created_at = ?now, u_updated_at = ?now\<rparr>]\<rparr>,
        Inl AttributeError)"
    using gamma[THEN conjunct2, THEN conjunct2, THEN conjunct2] example_users_emails
    unfolding g column_value_naive by simp
  have 2: "get_db (register example_security gamma_request ''gamma'' ''u-gamma'' ?now) example_db
      = (example_db, Inl AttributeError)"
    using gamma[THEN conjunct2, THEN conjunct2, THEN conjunct1, rule_format,
        where handler = "register example_security gamma_request ''gamma'' ''u-gamma'' ?now",
        OF 1] .
  have 3: "register example_security long_password_request ''gamma'' ''u-gamma'' ?now example_db
     = (example_db\<lparr>organizations := organizations example_db @
           [\<lparr>o_id = ''gamma'', o_name = ''Gamma'', o_profile_type = STARTUP,
             o_created_at = ?now, o_updated_at = ?now\<rparr>]\<rparr>,
        Inl ValueError)"
    using long[THEN conjunct2, THEN conjunct2, THEN conjunct2] example_users_emails
    unfolding l column_value_naive by simp
  have 4: "get_db (register example_security long_password_request ''gamma'' ''u-gamma'' ?now)
      example_db = (example_db, Inl ValueError)"
    using long[THEN conjunct2, THEN conjunct2, THEN conjunct1, rule_format,
        where handler = "register example_security long_password_request ''gamma'' ''u-gamma'' ?now",
        OF 3] .
  have r: "returning_handler example_db
     = (example_db\<lparr>organizations := organizations example_db @ [example_organization ''delta'']\<rparr>,
        Inr \<lparr>access_token = ''a'', refresh_token = ''r''\<rparr>)"
    by (simp add: returning_handler_def)
  have 5: "get_db returning_handler example_db
     = (example_db\<lparr>organizations := organizations example_db @ [example_organization ''delta'']\<rparr>,
        Inr \<lparr>access_token = ''a'', refresh_token = ''r''\<rparr>)"
    using gamma[THEN conjunct2, THEN conjunct1, rule_format, where handler = returning_handler,
        OF r] .
  from 1 2 3 4 5 show ?thesis by (intro conjI)
qed

section \<open>Organization statistics\<close>

lemma or_zero_Some: "or_zero (Some v) = v"
  by (simp add: or_zero_def)

lemma sum_sql_if:
  "sum_list (map (\<lambda>x. sql_if (P x) 1 0) xs) = int (length (filter P xs))"
  by (induction xs) (simp_all add: sql_if_def)

lemma or_zero_sum_if:
  "or_zero (sql_sum (map (\<lambda>x. sql_if (P x) 1 0) xs)) = int (length (filter P xs))"
proof (cases xs)
  case Nil
  then show ?thesis by (simp add: sql_sum_def or_zero_def)
next
  case (Cons a list)
  then have "sql_sum (map (\<lambda>x. sql_if (P x) 1 0) xs) = Some (int (length (filter P xs)))"
    unfolding sql_sum_def sum_sql_if by simp
  then show ?thesis by (simp add: or_zero_Some)
qed

lemma utc_us_add_days: "utc_us (add_days d n) = utc_us d + n * us_per_day"
  by (simp add: utc_us_def wall_us_def add_days_def distrib_right)

lemma sql_lt_overdue:
  "(t_status t \<noteq> DONE \<and> sql_lt (t_due_date t) now) \<longleftrightarrow> overdue_at now t"
  by (auto simp: sql_lt_def overdue_at_def split: option.splits)

lemma sql_le_expiring:
  "(d_expires_at d \<noteq> None \<and> sql_le (d_expires_at d) (add_days now 30)) \<longleftrightarrow>
   (case d_expires_at d of None \<Rightarrow> False
    | Some expiry \<Rightarrow> utc_us expiry \<le> utc_us now + 30 * us_per_day)"
  by (simp add: sql_le_def utc_us_add_days split: option.splits)

text \<open>
  Where the backend has the function \<open>if\<close>, \<open>get_organization_stats\<close> returns counts
  over all rows of the caller's organization, with no filter: the controls in total and
  those with status completed, in progress and not started; the tasks in total, those
  with status done, and those overdue (status not done and due date earlier than now);
  the documents in total and those with an expiry that is not null and at most now
  plus 30 days.
\<close>

lemma organization_stats_counts:
  assumes "has_if engine"
  shows "get_organization_stats engine current_user now db =
     (db, Inr
       \<lparr>total_controls =
          int (length (filter (\<lambda>oc. oc_organization_id oc = cu_organization_id current_user)
                 (organization_controls db))),
        completed_controls =
          int (length (filter (\<lambda>oc. oc_status oc = COMPLETED)
                 (filter (\<lambda>oc. oc_organization_id oc = cu_organization_id current_user)
                    (organization_controls db)))),
        in_progress_controls =
          int (length (filter (\<lambda>oc. oc_status oc = ControlStatus.IN_PROGRESS)
                 (filter (\<lambda>oc. oc_organization_id oc = cu_organization_id current_user)
                    (organization_controls db)))),
        not_started_controls =
          int (length (filter (\<lambda>oc. oc_status oc = NOT_STARTED)
                 (filter (\<lambda>oc. oc_organization_id oc = cu_organization_id current_user)
                    (organization_controls db)))),
        total_tasks =
          int (length (filter (\<lambda>t. t_organization_id t = cu_organization_id current_user) (tasks db))),
        completed_tasks =
          int (length (filter (\<lambda>t. t_status t = DONE)
                 (filter (\<lambda>t. t_organization_id t = cu_organization_id current_user) (tasks db)))),
        overdue_tasks =
          int (length (filter (overdue_at now)
                 (filter (\<lambda>t. t_organization_id t = cu_organization_id current_user) (tasks db)))),
        total_documents =
          int (length (filter (\<lambda>d. d_organization_id d = cu_organization_id current_user)
                 (documents db))),
        expiring_documents =
          int (length (filter (\<lambda>d. case d_expires_at d of None \<Rightarrow> False
                                 | Some expiry \<Rightarrow> utc_us expiry \<le> utc_us now + 30 * us_per_day)
                 (filter (\<lambda>d. d_organization_id d = cu_organization_id current_user)
                    (documents db))))\<rparr>)"
proof -
  let ?org = "cu_organization_id current_user"
  have overdue: "filter (\<lambda>t. t_organization_id t = ?org \<and> t_status t \<noteq> DONE \<and>
                            sql_lt (t_due_date t) now) (tasks db)
       = filter (overdue_at now) (filter (\<lambda>t. t_organization_id t = ?org) (tasks db))"
    unfolding filter_filter by (intro filter_cong refl) (auto simp: sql_lt_overdue[symmetric])
  have expiring: "filter (\<lambda>d. d_organization_id d = ?org \<and> d_expires_at d \<noteq> None \<and>
                            sql_le (d_expires_at d) (add_days now 30)) (documents db)
       = filter (\<lambda>d. case d_expires_at d of None \<Rightarrow> False
                                 | Some expiry \<Rightarrow> utc_us expiry \<le> utc_us now + 30 * us_per_day)
           (filter (\<lambda>d. d_organization_id d = ?org) (documents db))"
    unfolding filter_filter by (intro filter_cong refl) (auto simp: sql_le_expiring[symmetric])
  have run: "execute_with_if engine row = Inr row" for row :: 'a
    using assms by (simp add: execute_with_if_def)
  show ?thesis
    unfolding get_organization_stats_def Let_def run sum.case prod.case overdue expiring
      or_zero_sum_if or_zero_Some sql_count_def ..
qed

text \<open>The counts of the example store, for the statistics of Acme.\<close>

lemma example_stats_counts:
  "length (filter (\<lambda>oc. oc_organization_id oc = cu_organization_id acme_admin)
                 (organization_controls example_db)) = 3"
  "length (filter (\<lambda>oc. oc_status oc = COMPLETED)
                 (filter (\<lambda>oc. oc_organization_id oc = cu_organization_id acme_admin)
                    (organization_controls example_db))) = 2"
  "length (filter (\<lambda>oc. oc_status oc = ControlStatus.IN_PROGRESS)
                 (filter (\<lambda>oc. oc_organization_id oc = cu_organization_id acme_admin)
                    (organization_controls example_db))) = 0"
  "length (filter (\<lambda>oc. oc_status oc = NOT_STARTED)
                 (filter (\<lambda>oc. oc_organization_id oc = cu_organization_id acme_admin)
                    (organization_controls example_db))) = 1"
  "length (filter (\<lambda>t. t_organization_id t = cu_organization_id acme_admin) (tasks example_db)) = 2"
  "length (filter (\<lambda>t. t_status t = DONE)
                 (filter (\<lambda>t. t_organization_id t = cu_organization_id acme_admin) (tasks example_db))) = 1"
  "length (filter (overdue_at (utc_datetime 738886 12))
                 (filter (\<lambda>t. t_organization_id t = cu_organization_id acme_admin) (tasks example_db))) = 1"
  "length (filter (\<lambda>d. d_organization_id d = cu_organization_id acme_admin)
                 (documents example_db)) = 1"
  "length (filter (\<lambda>d. case d_expires_at d of None \<Rightarrow> False
                                 | Some expiry \<Rightarrow> utc_us expiry \<le> utc_us (utc_datetime 738886 12) + 30 * us_per_day)
                 (filter (\<lambda>d. d_organization_id d = cu_organization_id acme_admin)
                    (documents example_db))) = 1"
  by code_simp+

text \<open>The statistics of Acme in the example store at 2024-01-01 12:00 UTC, on MySQL.\<close>

lemma organization_stats_mysql:
  "get_organization_stats MySQL acme_admin (utc_datetime 738886 12) example_db =
     (example_db, Inr
       \<lparr>total_controls = 3, completed_controls = 2, in_progress_controls = 0,
        not_started_controls = 1, total_tasks = 2, completed_tasks = 1, overdue_tasks = 1,
        total_documents = 1, expiring_documents = 1\<rparr>)"
proof -
  have "has_if MySQL" by simp
  from organization_stats_counts[OF this, of acme_admin "utc_datetime 738886 12" example_db]
  show ?thesis unfolding example_stats_counts by simp
qed

text \<open>
  Where the backend has no function \<open>if\<close>, the first query is refused, for every caller
  and every state of the store.
\<close>

lemma organization_stats_without_if:
  assumes "\<not> has_if engine"
  shows "get_organization_stats engine current_user now db = (db, Inl OperationalError)"
  using assms by (simp add: get_organization_stats_def Let_def execute_with_if_def)

text \<open>
  Claim C7 on the backend the settings select by default: Acme's admin asks for the
  statistics of the example store at 2024-01-01 12:00 UTC, with SQLite 3.40.  The claim
  has the request return the counts 3, 2, 0, 1 of the controls, 2, 1, 1 of the tasks
  and 1, 1 of the documents (\<open>organization_stats_mysql\<close>); the control query calls
  \<open>if\<close>, SQLite has no such function, and the request raises \<open>OperationalError\<close>.
  The other queries of the same function count with a \<open>WHERE\<close> clause, which both
  backends accept.
\<close>

theorem organization_stats_sqlite_raises:
  "get_organization_stats (SQLite 3 40) acme_admin (utc_datetime 738886 12) example_db
     = (example_db, Inl OperationalError)"
  by (simp add: get_organization_stats_def Let_def execute_with_if_def)

section \<open>Controls grouped by category\<close>

lemma keys_dict_set:
  "map fst (dict_set d k v) = (if k \<in> set (map fst d) then map fst d else map fst d @ [k])"
proof (induction d)
  case Nil
  show ?case by simp
next
  case (Cons p d)
  obtain k' v' where p: "p = (k', v')" by (cases p)
  show ?case
  proof (cases "k' = k")
    case True
    then show ?thesis by (simp add: p)
  next
    case False
    then show ?thesis using Cons.IH by (simp add: p)
  qed
qed

lemma in_dict_set:
  assumes "distinct (map fst d)"
  shows "q \<in> set (dict_set d k v) \<longleftrightarrow> q = (k, v) \<or> (q \<in> set d \<and> fst q \<noteq> k)"
  using assms
proof (induction d)
  case Nil
  show ?case by simp
next
  case (Cons p d)
  obtain k' v' where p: "p = (k', v')" by (cases p)
  show ?case
  proof (cases "k' = k")
    case True
    then have "k \<notin> fst ` set d" using Cons.prems by (simp add: p)
    then have "q \<in> set d \<Longrightarrow> fst q \<noteq> k" by force
    then show ?thesis using True by (auto simp: p)
  next
    case False
    have "distinct (map fst d)" using Cons.prems by simp
    from Cons.IH[OF this] show ?thesis using False by (auto simp: p)
  qed
qed

lemma grouped_step:
  fixes ctrl :: OrganizationControl
  assumes "grouped done categories"
  defines "cat \<equiv> c_category (oc_control ctrl)"
  defines "data \<equiv> (case map_of categories cat of
                    None \<Rightarrow> \<lparr>cd_category = cat,
                              cd_category_name_en = c_category_name_en (oc_control ctrl),
                              cd_category_name_ko = c_category_name_ko (oc_control ctrl),
                              cd_controls = [], cd_completed = 0\<rparr>
                  | Some data \<Rightarrow> data)"
  defines "data' \<equiv> data\<lparr>cd_controls := cd_controls data @ [ctrl],
                        cd_completed := (if oc_status ctrl = COMPLETED then cd_completed data + 1
                                         else cd_completed data)\<rparr>"
  shows "grouped (done @ [ctrl]) (dict_set categories cat data')"
proof -
  have d: "distinct (map fst categories)"
    using assms(1) unfolding grouped_def by (rule conjunct1)
  have k: "set (map fst categories) = category_of ` set done"
    using assms(1) unfolding grouped_def by (elim conjE)
  have e: "cd_category x = c \<and> cd_controls x = filter (\<lambda>y. category_of y = c) done \<and>
              cd_completed x = int (length (filter (\<lambda>y. oc_status y = COMPLETED) (cd_controls x)))"
    if "(c, x) \<in> set categories" for c x
  proof -
    from assms(1) have "\<forall>(cat, data) \<in> set categories.
        cd_category data = cat \<and>
        cd_controls data = filter (\<lambda>c. category_of c = cat) done \<and>
        cd_completed data = int (length (filter (\<lambda>c. oc_status c = COMPLETED) (cd_controls data)))"
      unfolding grouped_def by (elim conjE)
    from bspec[OF this that] show ?thesis by simp
  qed
  have cat: "category_of ctrl = cat" by (simp add: category_of_def cat_def)
  have data: "cd_category data = cat \<and> cd_controls data = filter (\<lambda>y. category_of y = cat) done \<and>
              cd_completed data = int (length (filter (\<lambda>y. oc_status y = COMPLETED) (cd_controls data)))"
  proof (cases "map_of categories cat")
    case None
    then have "cat \<notin> set (map fst categories)" by (simp add: map_of_eq_None_iff)
    then have "cat \<notin> category_of ` set done" using k by simp
    then have "filter (\<lambda>y. category_of y = cat) done = []"
      by (auto simp: filter_empty_conv)
    then show ?thesis using None by (simp add: data_def)
  next
    case (Some x)
    then have "(cat, x) \<in> set categories" by (rule map_of_SomeD)
    from e[OF this] show ?thesis using Some by (simp add: data_def)
  qed
  have data': "cd_category data' = cat \<and>
              cd_controls data' = filter (\<lambda>y. category_of y = cat) (done @ [ctrl]) \<and>
              cd_completed data' = int (length (filter (\<lambda>y. oc_status y = COMPLETED) (cd_controls data')))"
    using data cat by (simp add: data'_def)
  have 1: "distinct (map fst (dict_set categories cat data'))"
    using d by (simp add: keys_dict_set)
  have 2: "set (map fst (dict_set categories cat data')) = category_of ` set (done @ [ctrl])"
  proof (cases "cat \<in> set (map fst categories)")
    case True
    then have "cat \<in> category_of ` set done" using k by simp
    then have "insert cat (category_of ` set done) = category_of ` set done" by blast
    then show ?thesis using True k cat by (simp add: keys_dict_set)
  next
    case False
    then show ?thesis using k cat by (simp add: keys_dict_set)
  qed
  have 3: "cd_category x = c \<and> cd_controls x = filter (\<lambda>y. category_of y = c) (done @ [ctrl]) \<and>
              cd_completed x = int (length (filter (\<lambda>y. oc_status y = COMPLETED) (cd_controls x)))"
    if "(c, x) \<in> set (dict_set categories cat data')" for c x
  proof -
    from that have "(c, x) = (cat, data') \<or> ((c, x) \<in> set categories \<and> c \<noteq> cat)"
      unfolding in_dict_set[OF d] by auto
    then show ?thesis
    proof
      assume "(c, x) = (cat, data')"
      then show ?thesis using data' by simp
    next
      assume a: "(c, x) \<in> set categories \<and> c \<noteq> cat"
      then have "category_of ctrl \<noteq> c" using cat by blast
      then have "filter (\<lambda>y. category_of y = c) (done @ [ctrl]) = filter (\<lambda>y. category_of y = c) done"
        by simp
      then show ?thesis using e[of c x] a by simp
    qed
  qed
  have "\<forall>p \<in> set (dict_set categories cat data').
          case p of (c, x) \<Rightarrow>
            cd_category x = c \<and> cd_controls x = filter (\<lambda>y. category_of y = c) (done @ [ctrl]) \<and>
            cd_completed x = int (length (filter (\<lambda>y. oc_status y = COMPLETED) (cd_controls x)))"
  proof
    fix p assume p: "p \<in> set (dict_set categories cat data')"
    obtain c x where "p = (c, x)" by (cases p)
    with 3[of c x] p show "case p of (c, x) \<Rightarrow>
            cd_category x = c \<and> cd_controls x = filter (\<lambda>y. category_of y = c) (done @ [ctrl]) \<and>
            cd_completed x = int (length (filter (\<lambda>y. oc_status y = COMPLETED) (cd_controls x)))"
      by simp
  qed
  with 1 2 show ?thesis unfolding grouped_def by (intro conjI)
qed

lemma grouped_group_by_category:
  "grouped done categories \<Longrightarrow> grouped (done @ rest) (group_by_category rest categories)"
proof (induction rest arbitrary: "done" categories)
  case Nil
  then show ?case by simp
next
  case (Cons ctrl rest)
  from Cons.IH[OF grouped_step[OF Cons.prems, of ctrl]]
  show ?case by (simp add: Let_def)
qed

lemma grouped_empty: "grouped [] []"
  by (simp add: grouped_def)

lemma grouped_entries:
  assumes "grouped controls categories" and "data \<in> set (dict_values categories)"
  shows "cd_controls data = filter (\<lambda>c. category_of c = cd_category data) controls \<and>
         cd_completed data = int (length (filter (\<lambda>c. oc_status c = COMPLETED) (cd_controls data)))"
proof -
  from assms(2) obtain cat where m: "(cat, data) \<in> set categories"
    by (auto simp: dict_values_def)
  from assms(1) have "\<forall>(cat, data) \<in> set categories.
        cd_category data = cat \<and>
        cd_controls data = filter (\<lambda>c. category_of c = cat) controls \<and>
        cd_completed data = int (length (filter (\<lambda>c. oc_status c = COMPLETED) (cd_controls data)))"
    unfolding grouped_def by (elim conjE)
  from bspec[OF this m] show ?thesis by simp
qed

lemma grouped_keys:
  assumes "grouped controls categories"
  shows "map cd_category (dict_values categories) = map fst categories"
proof -
  from assms have "\<forall>(cat, data) \<in> set categories. cd_category data = cat"
    unfolding grouped_def by fast
  then have "\<forall>p \<in> set categories. cd_category (snd p) = fst p" by fastforce
  then show ?thesis by (simp add: dict_values_def)
qed

text \<open>
  Claim C8.  \<open>list_controls_by_category\<close> groups the whole adoption set of the
  caller's organization by category code: the groups come sorted ascending by category
  code, one group per code that occurs; the members of a group are exactly the
  organization-controls of its category; its total is the number of its members and its
  completed count is the number of members whose status is completed.
\<close>

theorem list_controls_by_category_groups:
  "\<exists>result.
     list_controls_by_category current_user db = (db, Inr result) \<and>
     sorted (map cr_category result) \<and> distinct (map cr_category result) \<and>
     set (map cr_category result) = category_of ` set (adoption_set current_user db) \<and>
     (\<forall>g \<in> set result.
        cr_controls g = filter (\<lambda>c. category_of c = cr_category g) (adoption_set current_user db) \<and>
        cr_total g = int (length (cr_controls g)) \<and>
        cr_completed g = int (length (filter (\<lambda>c. oc_status c = COMPLETED) (cr_controls g))))"
proof -
  let ?controls = "adoption_set current_user db"
  let ?categories = "group_by_category ?controls []"
  let ?sorted = "sort_key cd_category (dict_values ?categories)"
  let ?response = "\<lambda>data. \<lparr>cr_category = cd_category data,
                                   cr_category_name_en = cd_category_name_en data,
                                   cr_category_name_ko = cd_category_name_ko data,
                                   cr_controls = cd_controls data,
                                   cr_total = int (length (cd_controls data)),
                                   cr_completed = cd_completed data\<rparr>"
  let ?result = "map ?response ?sorted"
  have g: "grouped ?controls ?categories"
    using grouped_group_by_category[OF grouped_empty, of ?controls] by simp
  have run: "list_controls_by_category current_user db = (db, Inr ?result)"
    by (simp add: list_controls_by_category_def adoption_set_def Let_def)
  have cats: "map cr_category ?result = map cd_category ?sorted"
    by (simp add: comp_def)
  have keys: "map cd_category (dict_values ?categories) = map fst ?categories"
    using g by (rule grouped_keys)
  have dk: "distinct (map fst ?categories)"
    using g unfolding grouped_def by (rule conjunct1)
  have sk: "set (map fst ?categories) = category_of ` set ?controls"
    using g unfolding grouped_def by (elim conjE)
  have 1: "sorted (map cr_category ?result)"
    unfolding cats by (rule sorted_sort_key)
  have "distinct (map cd_category (dict_values ?categories))"
    unfolding keys by (rule dk)
  then have "distinct (map cd_category ?sorted)"
    by (simp add: distinct_map)
  then have 2: "distinct (map cr_category ?result)"
    unfolding cats .
  have "set (map cd_category ?sorted) = set (map cd_category (dict_values ?categories))"
    by simp
  then have 3: "set (map cr_category ?result) = category_of ` set ?controls"
    unfolding cats keys sk .
  have 4: "\<forall>g \<in> set ?result.
        cr_controls g = filter (\<lambda>c. category_of c = cr_category g) ?controls \<and>
        cr_total g = int (length (cr_controls g)) \<and>
        cr_completed g = int (length (filter (\<lambda>c. oc_status c = COMPLETED) (cr_controls g)))"
  proof
    fix r assume "r \<in> set ?result"
    then obtain data where r: "r = ?response data" and d: "data \<in> set (dict_values ?categories)"
      by auto
    from grouped_entries[OF g d] show
      "cr_controls r = filter (\<lambda>c. category_of c = cr_category r) ?controls \<and>
        cr_total r = int (length (cr_controls r)) \<and>
        cr_completed r = int (length (filter (\<lambda>c. oc_status c = COMPLETED) (cr_controls r)))"
      by (simp add: r)
  qed
  from run 1 2 3 4 show ?thesis by (intro exI[of _ ?result] conjI)
qed

lemma example_categories:
  "map (\<lambda>g. (cr_category g, map oc_id (cr_controls g), cr_total g, cr_completed g))
     (case list_controls_by_category acme_admin example_db of (db', Inr result) \<Rightarrow> result | _ \<Rightarrow> [])
   = [(''A.5'', [''oc2'', ''oc3''], 2, 1), (''A.6'', [''oc1''], 1, 1)]"
  by code_simp

text \<open>Acme's three adopted controls: two in A.5, one of them completed, and one in A.6.\<close>

theorem list_controls_by_category_groups_witness:
  "\<exists>result.
     list_controls_by_category acme_admin example_db = (example_db, Inr result) \<and>
     map (\<lambda>g. (cr_category g, map oc_id (cr_controls g), cr_total g, cr_completed g)) result
       = [(''A.5'', [''oc2'', ''oc3''], 2, 1), (''A.6'', [''oc1''], 1, 1)] \<and>
     sorted (map cr_category result) \<and>
     (\<forall>g \<in> set result.
        cr_controls g = filter (\<lambda>c. category_of c = cr_category g) (adoption_set acme_admin example_db) \<and>
        cr_total g = int (length (cr_controls g)) \<and>
        cr_completed g = int (length (filter (\<lambda>c. oc_status c = COMPLETED) (cr_controls g))))"
proof -
  from list_controls_by_category_groups[of acme_admin example_db] obtain result where
    run: "list_controls_by_category acme_admin example_db = (example_db, Inr result)"
    and s: "sorted (map cr_category result)"
    and g: "\<forall>g \<in> set result.
        cr_controls g = filter (\<lambda>c. category_of c = cr_category g) (adoption_set acme_admin example_db) \<and>
        cr_total g = int (length (cr_controls g)) \<and>
        cr_completed g = int (length (filter (\<lambda>c. oc_status c = COMPLETED) (cr_controls g)))"
    by blast
  have m: "map (\<lambda>g. (cr_category g, map oc_id (cr_controls g), cr_total g, cr_completed g)) result
       = [(''A.5'', [''oc2'', ''oc3''], 2, 1), (''A.6'', [''oc1''], 1, 1)]"
    using example_categories unfolding run by simp
  from run m s g show ?thesis by (intro exI[of _ result] conjI)
qed

end
